theory Spec2Isabelle
  imports Complex_Main "HOL-Library.Log_Nat" "HOL-Library.Word"
begin

section \<open>Python values, exceptions and strings\<close>

text \<open>
  The engine is Python. Exceptions are values of \<open>exn\<close>; a computation that may raise
  returns \<open>exn + 'a\<close> with \<open>Inl\<close> the exception. Times and sample values are reals (the
  finite floats are among them); where the code rounds a floating-point product that is
  stored, the rounding is written out. Arrays of samples are lists, JSON documents are
  values of \<open>json\<close>, whose dicts list each key once. A string is a list of characters with
  code points below 256.
\<close>

datatype json =
    JNull
  | JBool bool
  | JInt int
  | JReal real
  | JStr string
  | JList "json list"
  | JDict "(string \<times> json) list"

text \<open>The exception classes that occur. \<open>Exception\<close> carries the object it was raised
  with; the others carry their message or the offending key or path.\<close>

datatype exn =
    Exception json
  | ValueError string
  | IndexError string
  | KeyError string
  | TypeError string
  | AttributeError string
  | FileNotFoundError string
  | ZeroDivisionError string
  | WaveError string
  | StructError string
  | JSONDecodeError string
  | RecursionError string
  | TimeoutExpired

text \<open>Truth value of a Python object, as \<open>if data['success']:\<close> tests it.\<close>

fun truthy :: "json \<Rightarrow> bool" where
  "truthy JNull = False"
| "truthy (JBool b) = b"
| "truthy (JInt n) = (n \<noteq> 0)"
| "truthy (JReal r) = (r \<noteq> 0)"
| "truthy (JStr s) = (s \<noteq> [])"
| "truthy (JList xs) = (xs \<noteq> [])"
| "truthy (JDict kvs) = (kvs \<noteq> [])"

text \<open>\<open>d[k]\<close> on a parsed JSON value: \<open>KeyError\<close> when the key is absent, \<open>TypeError\<close> when
  the value is not a dict.\<close>

fun subscript :: "json \<Rightarrow> string \<Rightarrow> exn + json" where
  "subscript (JDict kvs) k = (case map_of kvs k of None \<Rightarrow> Inl (KeyError k) | Some v \<Rightarrow> Inr v)"
| "subscript _ k = Inl (TypeError ''indices must be integers'')"

text \<open>\<open>str.isspace\<close> on one character, \<open>str.strip()\<close>, \<open>str.split(sep)\<close>,
  \<open>str.startswith\<close> and \<open>str.endswith\<close> for a one-character argument.\<close>

definition py_isspace :: "char \<Rightarrow> bool" where
  "py_isspace c = (let n = (of_char c :: nat) in
     (9 \<le> n \<and> n \<le> 13) \<or> (28 \<le> n \<and> n \<le> 32) \<or> n = 133 \<or> n = 160)"

definition strip :: "string \<Rightarrow> string" where
  "strip s = dropWhile py_isspace (rev (dropWhile py_isspace (rev s)))"

fun split :: "char \<Rightarrow> string \<Rightarrow> string list" where
  "split sep [] = [[]]"
| "split sep (c # cs) =
     (if c = sep then [] # split sep cs
      else (case split sep cs of [] \<Rightarrow> [[c]] | w # ws \<Rightarrow> (c # w) # ws))"

definition startswith :: "string \<Rightarrow> char \<Rightarrow> bool" where
  "startswith s c = (case s of [] \<Rightarrow> False | x # _ \<Rightarrow> x = c)"

definition endswith :: "string \<Rightarrow> char \<Rightarrow> bool" where
  "endswith s c = (s \<noteq> [] \<and> last s = c)"

text \<open>\<open>str(n)\<close> for an integer, as the f-strings print a return code.\<close>

definition digit_char :: "nat \<Rightarrow> char" where
  "digit_char d = char_of (48 + d)"

function str_nat :: "nat \<Rightarrow> string" where
  "str_nat n = (if n < 10 then [digit_char n] else str_nat (n div 10) @ [digit_char (n mod 10)])"
  by pat_completeness auto
termination
  by (relation "measure id") auto

definition str_int :: "int \<Rightarrow> string" where
  "str_int i = (if i < 0 then CHR ''-'' # str_nat (nat (- i)) else str_nat (nat i))"

section \<open>Real-time factor\<close>

text \<open>Python's \<open>/\<close> on numbers raises \<open>ZeroDivisionError\<close> for a zero divisor.\<close>

definition truediv :: "real \<Rightarrow> real \<Rightarrow> exn + real" where
  "truediv a b = (if b = 0 then Inl (ZeroDivisionError ''float division by zero'') else Inr (a / b))"

text \<open>\<open>_create_audio_npu_accelerated\<close>, the last lines:
  \<^verbatim>\<open>audio_duration = len(audio) / sample_rate\<close>,
  \<^verbatim>\<open>rtf = generation_time / audio_duration if audio_duration > 0 else 0\<close>.\<close>

definition npu_rtf :: "real \<Rightarrow> real \<Rightarrow> exn + real" where
  "npu_rtf generation_time audio_duration =
     (if audio_duration > 0 then truediv generation_time audio_duration else Inr 0)"

section \<open>Floating-point rounding\<close>

text \<open>\<open>round\<close> of Python, which is also the rounding of IEEE 754 arithmetic: to the nearest
  integer, a half to the even neighbour.\<close>

definition py_round :: "real \<Rightarrow> int" where
  "py_round x =
     (let f = \<lfloor>x\<rfloor>; d = x - real_of_int f in
      if d < 1 / 2 then f else if 1 / 2 < d then f + 1 else if even f then f else f + 1)"

text \<open>
  The binary exponent of a positive real \<open>a\<close>: the \<open>e\<close> with \<open>2^e \<le> a < 2^(e+1)\<close>, read off the
  bit length of the integer part of \<open>a\<close>, or of \<open>1/a\<close> for \<open>a < 1\<close>.
\<close>

definition expo :: "real \<Rightarrow> int" where
  "expo a = (if 1 \<le> a then bitlen \<lfloor>a\<rfloor> - 1 else - bitlen (\<lceil>1 / a\<rceil> - 1))"

text \<open>
  Rounding to the nearest value of a binary format with \<open>p\<close> significant bits and least
  normal exponent \<open>emin\<close>, ties to even: the magnitude is rounded to a multiple of the unit
  in the last place of its binade (of the least binade below it, the subnormal range)
  and the sign is kept. The formats have no upper end here: the products that are
  rounded stay below \<open>2^15\<close>.
\<close>

definition round_mag :: "nat \<Rightarrow> int \<Rightarrow> real \<Rightarrow> real" where
  "round_mag p emin a =
     (let e = max emin (expo a); u = 2 powi (e - int p + 1)
      in u * real_of_int (py_round (a / u)))"

definition round_binary :: "nat \<Rightarrow> int \<Rightarrow> real \<Rightarrow> real" where
  "round_binary p emin y = (if y = 0 then 0 else sgn y * round_mag p emin \<bar>y\<bar>)"

text \<open>The floating-point type of an array of samples: \<open>float32\<close>, as the engine returns them,
  or \<open>float64\<close>; the result of an arithmetic operation on the array is rounded to it.\<close>

datatype dtype = Float32 | Float64

fun round_float :: "dtype \<Rightarrow> real \<Rightarrow> real" where
  "round_float Float32 y = round_binary 24 (- 126) y"
| "round_float Float64 y = round_binary 53 (- 1022) y"

section \<open>16-bit PCM\<close>

text \<open>\<open>synthesize\<close> writes
  \<^verbatim>\<open>(np.clip(audio, -1.0, 1.0) * 32767).astype(np.int16)\<close>.
  \<open>np.clip\<close> is \<open>minimum(maximum(x, lo), hi)\<close> and is exact; the product is rounded to the
  type of the array; the cast to \<open>int16\<close> drops the fraction (rounds towards zero) and
  keeps the low 16 bits.\<close>

definition np_clip :: "real \<Rightarrow> real \<Rightarrow> real \<Rightarrow> real" where
  "np_clip x lo hi = min (max x lo) hi"

definition astype_int16 :: "real \<Rightarrow> 16 word" where
  "astype_int16 x = word_of_int (if 0 \<le> x then \<lfloor>x\<rfloor> else \<lceil>x\<rceil>)"

definition audio_int16 :: "dtype \<Rightarrow> real list \<Rightarrow> 16 word list" where
  "audio_int16 dt audio =
     map (\<lambda>x. astype_int16 (round_float dt (np_clip x (- 1) 1 * 32767))) audio"

text \<open>Reading a stored sample back and rescaling it, in the words of the specification:
  the signed value of the 16-bit sample divided by 32767.\<close>

definition pcm_read_rescaled :: "16 word \<Rightarrow> real" where
  "pcm_read_rescaled w = real_of_int (sint w) / 32767"

section \<open>The isolated synthesis worker (web_interface_magic_unicorn.py)\<close>

type_synonym audio = "real list"

text \<open>The \<open>.npy\<close> artefacts on disk, by path.\<close>

type_synonym files = "string \<rightharpoonup> audio"

text \<open>What \<open>subprocess.run(..., capture_output=True, text=True)\<close> returns.\<close>

record completed_process =
  returncode :: int
  stdout :: string
  stderr :: string

text \<open>
  The script that \<open>run_synthesis_subprocess\<close> generates for a request. Only the text and the
  voice are written into it; the artefact path is the literal of the script. The engine
  \<open>Kokoro(...).create(text, voice, speed=1.0)\<close> of the \<open>kokoro_onnx\<close> package is a parameter: it
  returns the samples and the sample rate, or fails with the text of \<open>str(e)\<close> and of the
  traceback. The script prints \<open>json.dumps(result)\<close>; the function returns \<open>result\<close> and the
  files after \<open>np.save\<close>.
\<close>

definition audio_file :: string where
  "audio_file = ''/tmp/synthesis_result.npy''"

definition synthesis_script ::
  "(string \<Rightarrow> json \<Rightarrow> (string \<times> string) + (audio \<times> int)) \<Rightarrow> string \<Rightarrow> json \<Rightarrow> files \<Rightarrow> json \<times> files" where
  "synthesis_script kokoro_create text voice fs =
     (case kokoro_create text voice of
        Inr (audio, sample_rate) \<Rightarrow>
          (JDict [(''success'', JBool True),
                  (''sample_rate'', JInt sample_rate),
                  (''audio_samples'', JInt (int (length audio))),
                  (''audio_file'', JStr audio_file),
                  (''method_used'', JStr ''Real Kokoro TTS''),
                  (''voice'', voice)],
           fs(audio_file \<mapsto> audio))
      | Inl (message, traceback) \<Rightarrow>
          (JDict [(''success'', JBool False),
                  (''error'', JStr message),
                  (''traceback'', JStr traceback)],
           fs))"

text \<open>
  The serving process sees the worker through two library calls, parameters of the model:
  \<open>subprocess_run\<close> runs the script generated for a text and a voice in a fresh interpreter
  (it raises \<open>TimeoutExpired\<close> after 30 seconds) and may change the files; \<open>json_loads\<close>
  parses a line or raises, a \<open>JSONDecodeError\<close> with its message for a line that is no
  JSON text. \<open>array_dtype\<close> is the
  floating-point type of the sample arrays that \<open>np.load\<close> returns.
\<close>

record host =
  subprocess_run :: "string \<Rightarrow> json \<Rightarrow> files \<Rightarrow> (exn + completed_process) \<times> files"
  json_loads :: "string \<Rightarrow> exn + json"
  array_dtype :: dtype

text \<open>The dict that \<open>run_synthesis_subprocess\<close> returns: \<open>success\<close> true with \<open>audio_data\<close>,
  \<open>sample_rate\<close>, \<open>method_used\<close> and \<open>voice\<close>, or \<open>success\<close> false with \<open>error\<close>.\<close>

datatype synthesis_result =
    SynthesisOk audio json json json
  | SynthesisFailed json

fun success_of :: "synthesis_result \<Rightarrow> bool" where
  "success_of (SynthesisOk a sr mu v) = True"
| "success_of (SynthesisFailed err) = False"

definition quoted :: "string \<Rightarrow> string" where
  "quoted s = [CHR 0x27] @ s @ [CHR 0x27]"

text \<open>The scan for the first line that starts with \<open>{\<close> and ends with \<open>}\<close>, each line
  stripped first.\<close>

fun find_json_line :: "string list \<Rightarrow> string option" where
  "find_json_line [] = None"
| "find_json_line (line # lines) =
     (let line' = strip line in
      if startswith line' (CHR ''{'') \<and> endswith line' (CHR ''}'') then Some line'
      else find_json_line lines)"

text \<open>\<open>np.load(path)\<close> and \<open>os.unlink(path)\<close> on the artefacts.\<close>

definition np_load :: "files \<Rightarrow> json \<Rightarrow> exn + audio" where
  "np_load fs p =
     (case p of
        JStr path \<Rightarrow> (case fs path of None \<Rightarrow> Inl (FileNotFoundError path) | Some a \<Rightarrow> Inr a)
      | _ \<Rightarrow> Inl (TypeError ''expected str, bytes or os.PathLike object''))"

definition unlink :: "files \<Rightarrow> json \<Rightarrow> files" where
  "unlink fs p = (case p of JStr path \<Rightarrow> fs(path := None) | _ \<Rightarrow> fs)"

text \<open>The part of \<open>run_synthesis_subprocess\<close> after \<open>data = json.loads(json_line)\<close>. The
  only handler of the function catches \<open>JSONDecodeError\<close>: a \<open>KeyError\<close>, a
  \<open>FileNotFoundError\<close> or any other exception leaves it.\<close>

definition load_result :: "json \<Rightarrow> files \<Rightarrow> (exn + synthesis_result) \<times> files" where
  "load_result data fs =
     (case subscript data ''success'' of
        Inl e \<Rightarrow> (Inl e, fs)
      | Inr s \<Rightarrow>
          if truthy s then
            (case subscript data ''audio_file'' of
               Inl e \<Rightarrow> (Inl e, fs)
             | Inr p \<Rightarrow>
                 (case np_load fs p of
                    Inl e \<Rightarrow> (Inl e, fs)
                  | Inr audio_data \<Rightarrow>
                      (let fs' = unlink fs p in
                       case subscript data ''sample_rate'' of
                         Inl e \<Rightarrow> (Inl e, fs')
                       | Inr sr \<Rightarrow>
                           (case subscript data ''method_used'' of
                              Inl e \<Rightarrow> (Inl e, fs')
                            | Inr mu \<Rightarrow>
                                (case subscript data ''voice'' of
                                   Inl e \<Rightarrow> (Inl e, fs')
                                 | Inr v \<Rightarrow> (Inr (SynthesisOk audio_data sr mu v), fs'))))))
          else
            (case subscript data ''error'' of
               Inl e \<Rightarrow> (Inl e, fs)
             | Inr err \<Rightarrow> (Inr (SynthesisFailed err), fs)))"

text \<open>The part after \<open>subprocess.run\<close> has returned.\<close>

definition read_worker :: "host \<Rightarrow> completed_process \<Rightarrow> files \<Rightarrow> (exn + synthesis_result) \<times> files" where
  "read_worker h result fs =
     (if returncode result = 0 then
        (let stdout_clean = strip (stdout result) in
         if stdout_clean = [] then
           (Inr (SynthesisFailed (JStr
              (''Subprocess returned empty output. STDERR: '' @ stderr result))), fs)
         else
           (case find_json_line (split (CHR 0x0A) stdout_clean) of
              None \<Rightarrow>
                (Inr (SynthesisFailed (JStr
                   (''No JSON found in output. STDOUT: '' @ quoted (stdout result)
                    @ '', STDERR: '' @ quoted (stderr result)))), fs)
            | Some json_line \<Rightarrow>
                (case json_loads h json_line of
                   Inl (JSONDecodeError e) \<Rightarrow>
                     (Inr (SynthesisFailed (JStr
                        (''JSON parse error: '' @ e @ ''. STDOUT: '' @ quoted (stdout result)
                         @ '', STDERR: '' @ quoted (stderr result)))), fs)
                 | Inl e \<Rightarrow> (Inl e, fs)
                 | Inr data \<Rightarrow> load_result data fs)))
      else
        (Inr (SynthesisFailed (JStr
           (''Subprocess failed with code '' @ str_int (returncode result)
            @ ''. STDOUT: '' @ quoted (stdout result)
            @ '', STDERR: '' @ quoted (stderr result)))), fs))"

text \<open>\<open>run_synthesis_subprocess(text, voice, method)\<close>. The temporary script file, written
  before the run and removed in the \<open>finally\<close> clause, is not part of \<open>files\<close>.\<close>

definition run_synthesis_subprocess ::
  "host \<Rightarrow> string \<Rightarrow> json \<Rightarrow> json \<Rightarrow> files \<Rightarrow> (exn + synthesis_result) \<times> files" where
  "run_synthesis_subprocess h text voice method fs =
     (case subprocess_run h text voice fs of
        (Inl e, fs1) \<Rightarrow> (Inl e, fs1)
      | (Inr result, fs1) \<Rightarrow> read_worker h result fs1)"

section \<open>The HTTP handlers\<close>

text \<open>One entry of \<open>performance_metrics\<close> (the timestamp is left out).\<close>

record metric_entry =
  m_method :: json
  m_voice :: json
  m_text_length :: nat
  m_generation_time :: real
  m_audio_duration :: real
  m_rtf :: real
  m_sample_rate :: json

text \<open>
  The responses of \<open>/synthesize\<close>: 200 with \<open>success\<close> true, the file name and the metrics;
  400 with \<open>success\<close> false and an error text; 500 with \<open>success\<close> false and the error text
  \<open>TTS generation failed:\<close> followed by \<open>str(e)\<close> of the exception that is kept here.
\<close>

datatype response =
    Http200 string metric_entry
  | Http400 string
  | Http500 exn

fun status :: "response \<Rightarrow> nat" where
  "status (Http200 filename m) = 200"
| "status (Http400 err) = 400"
| "status (Http500 e) = 500"

fun success :: "response \<Rightarrow> bool" where
  "success (Http200 filename m) = True"
| "success (Http400 err) = False"
| "success (Http500 e) = False"

text \<open>
  The state that \<open>synthesize\<close> touches: the artefacts, the WAV files written (frame rate and
  frames), the metrics ring, and a record of every call of \<open>run_synthesis_subprocess\<close> with
  its text, voice and method.
\<close>

record server =
  files :: files
  wav_files :: "string \<rightharpoonup> (int \<times> 16 word list)"
  performance_metrics :: "metric_entry list"
  worker_calls :: "(string \<times> json \<times> json) list"

text \<open>\<open>dict.get(key, default)\<close> on the request body.\<close>

definition get_default :: "json \<Rightarrow> string \<Rightarrow> json \<Rightarrow> exn + json" where
  "get_default data k d =
     (case data of
        JDict kvs \<Rightarrow> Inr (case map_of kvs k of None \<Rightarrow> d | Some v \<Rightarrow> v)
      | _ \<Rightarrow> Inl (AttributeError ''get''))"

text \<open>A JSON value used as a number.\<close>

fun as_number :: "json \<Rightarrow> real option" where
  "as_number (JInt n) = Some (real_of_int n)"
| "as_number (JReal r) = Some r"
| "as_number (JBool b) = Some (if b then 1 else 0)"
| "as_number _ = None"

text \<open>
  The \<open>with wave.open(audio_path, 'w')\<close> block for a sample rate and a number of frames
  (one channel, two bytes a sample); it returns the frame rate of the header and the
  rate as a number, or the exception that leaves the block.
  \<^item> \<open>setframerate\<close> raises \<open>TypeError\<close> on a rate that is no number and \<open>wave.Error\<close> on a
    rate that is not positive; it stores \<open>int(round(framerate))\<close>.
  \<^item> \<open>writeframes\<close> writes the header first: with a stored rate of 0 it raises
    \<open>wave.Error\<close>, and \<open>struct.pack\<close> raises \<open>struct.error\<close> for a byte rate (twice the
    frame rate) or a length field (36 plus two bytes a frame) of \<open>2^32\<close> or more.
  \<^item> When the block is left by an exception, \<open>__exit__\<close> closes the file, and \<open>close\<close>
    writes the header again: after a failure of \<open>setframerate\<close> no rate is stored, so
    the \<open>wave.Error\<close> of \<open>close\<close> is the exception that leaves the block.
  The file that \<open>wave.open\<close> creates stays on disk when the block raises; the model
  records a WAV file only when its frames have been written.
\<close>

definition write_wav :: "json \<Rightarrow> nat \<Rightarrow> exn + (int \<times> real)" where
  "write_wav sample_rate nframes =
     (case as_number sample_rate of
        None \<Rightarrow> Inl (WaveError ''sampling rate not specified'')
      | Some r \<Rightarrow>
          if r \<le> 0 then Inl (WaveError ''sampling rate not specified'')
          else (let framerate = py_round r in
                if framerate = 0 then Inl (WaveError ''sampling rate not specified'')
                else if 2 ^ 31 \<le> framerate \<or> 2 ^ 32 \<le> 36 + 2 * int nframes
                  then Inl (StructError ''argument out of range'')
                else Inr (framerate, r)))"

text \<open>\<open>deque(maxlen=100).append\<close>.\<close>

definition deque_append :: "'a list \<Rightarrow> 'a \<Rightarrow> 'a list" where
  "deque_append xs x = (let ys = xs @ [x] in drop (length ys - 100) ys)"

text \<open>
  The body of the \<open>try\<close> block of \<open>synthesize\<close> once the text is known to be a string that
  is not blank. \<open>hex8\<close> is \<open>uuid.uuid4().hex[:8]\<close>; \<open>t0\<close> and \<open>t1\<close> are the two readings of
  \<open>time.time()\<close>. The WAV file enters the model when its frames are written.
\<close>

definition synthesize_body ::
  "host \<Rightarrow> string \<Rightarrow> real \<Rightarrow> real \<Rightarrow> string \<Rightarrow> json \<Rightarrow> json \<Rightarrow> server \<Rightarrow> (exn + response) \<times> server" where
  "synthesize_body h hex8 t0 t1 text voice method sv =
     (let sv0 = sv\<lparr>worker_calls := worker_calls sv @ [(text, voice, method)]\<rparr> in
      case run_synthesis_subprocess h text voice method (files sv0) of
        (Inl e, fs) \<Rightarrow> (Inl e, sv0\<lparr>files := fs\<rparr>)
      | (Inr (SynthesisFailed err), fs) \<Rightarrow> (Inl (Exception err), sv0\<lparr>files := fs\<rparr>)
      | (Inr (SynthesisOk audio_data sample_rate mu v), fs) \<Rightarrow>
          (let sv1 = sv0\<lparr>files := fs\<rparr>;
               filename = ''real_speech_'' @ hex8 @ ''.wav'';
               audio_path = ''/tmp/'' @ filename
           in case write_wav sample_rate (length audio_data) of
                Inl e \<Rightarrow> (Inl e, sv1)
              | Inr (framerate, rate) \<Rightarrow>
                  (let sv2 = sv1\<lparr>wav_files := (wav_files sv1)(audio_path \<mapsto> (framerate, audio_int16 (array_dtype h) audio_data))\<rparr>;
                       generation_time = t1 - t0
                   in case truediv (real (length audio_data)) rate of
                        Inl e \<Rightarrow> (Inl e, sv2)
                      | Inr audio_duration \<Rightarrow>
                          (case truediv generation_time audio_duration of
                             Inl e \<Rightarrow> (Inl e, sv2)
                           | Inr rtf \<Rightarrow>
                               (let metric = \<lparr>m_method = method, m_voice = voice,
                                      m_text_length = length text,
                                      m_generation_time = generation_time,
                                      m_audio_duration = audio_duration,
                                      m_rtf = rtf, m_sample_rate = sample_rate\<rparr>
                                in (Inr (Http200 filename metric),
                                    sv2\<lparr>performance_metrics :=
                                      deque_append (performance_metrics sv2) metric\<rparr>))))))"

text \<open>
  \<open>synthesize\<close>, the handler of \<open>POST /synthesize\<close>, for the parsed request body \<open>data\<close>.
  \<open>len(text)\<close> in the first log line raises \<open>TypeError\<close> for null, a boolean or a number, and
  \<open>text.strip()\<close> raises \<open>AttributeError\<close> for a list or a dict. Every exception of the \<open>try\<close>
  block ends in the 500 response.
\<close>

definition synthesize :: "host \<Rightarrow> string \<Rightarrow> real \<Rightarrow> real \<Rightarrow> json \<Rightarrow> server \<Rightarrow> response \<times> server" where
  "synthesize h hex8 t0 t1 data sv =
     (case get_default data ''text'' (JStr []) of
        Inl e \<Rightarrow> (Http500 e, sv)
      | Inr text_v \<Rightarrow>
          (case get_default data ''voice'' (JStr ''af_heart'') of
             Inl e \<Rightarrow> (Http500 e, sv)
           | Inr voice \<Rightarrow>
               (case get_default data ''method'' (JStr ''auto'') of
                  Inl e \<Rightarrow> (Http500 e, sv)
                | Inr method \<Rightarrow>
                    (case text_v of
                       JStr text \<Rightarrow>
                         if strip text = [] then (Http400 ''No text provided for synthesis'', sv)
                         else (case synthesize_body h hex8 t0 t1 text voice method sv of
                                 (Inl e, sv') \<Rightarrow> (Http500 e, sv')
                               | (Inr r, sv') \<Rightarrow> (r, sv'))
                     | JList xs \<Rightarrow> (Http500 (AttributeError ''strip''), sv)
                     | JDict kvs \<Rightarrow> (Http500 (AttributeError ''strip''), sv)
                     | _ \<Rightarrow> (Http500 (TypeError ''object has no len()''), sv)))))"

text \<open>
  \<open>settings\<close>, the handler of \<open>POST /settings\<close>. The loop over \<open>data.items()\<close> assigns a
  value only under a key that \<open>APP_SETTINGS\<close> already has. Afterwards a \<open>log_level\<close> of the
  body sets the level of the root logger; \<open>level_of\<close> stands for
  \<open>getattr(logging, name)\<close> accepted by \<open>setLevel\<close>, which may raise.
\<close>

type_synonym settings = "string \<rightharpoonup> json"

fun update_settings :: "settings \<Rightarrow> (string \<times> json) list \<Rightarrow> settings" where
  "update_settings st [] = st"
| "update_settings st ((key, val) # items) =
     update_settings (case st key of None \<Rightarrow> st | Some old \<Rightarrow> st(key \<mapsto> val)) items"

record settings_state =
  APP_SETTINGS :: settings
  root_level :: int

definition settings_post ::
  "(json \<Rightarrow> exn + int) \<Rightarrow> json \<Rightarrow> settings_state \<Rightarrow> (exn + settings) \<times> settings_state" where
  "settings_post level_of data st =
     (case data of
        JDict items \<Rightarrow>
          (let st1 = st\<lparr>APP_SETTINGS := update_settings (APP_SETTINGS st) items\<rparr> in
           case map_of items ''log_level'' of
             None \<Rightarrow> (Inr (APP_SETTINGS st1), st1)
           | Some name \<Rightarrow>
               (case level_of name of
                  Inl e \<Rightarrow> (Inl e, st1)
                | Inr lvl \<Rightarrow> (Inr (APP_SETTINGS st1), st1\<lparr>root_level := lvl\<rparr>)))
      | _ \<Rightarrow> (Inl (AttributeError ''items''), st))"

text \<open>The keys of the request body.\<close>

definition payload_keys :: "json \<Rightarrow> string set" where
  "payload_keys data = (case data of JDict items \<Rightarrow> fst ` set items | _ \<Rightarrow> {})"

text \<open>The defaults of \<open>APP_SETTINGS\<close> in web_interface_magic_unicorn.py.\<close>

definition default_settings :: settings where
  "default_settings = map_of
     [(''preferred_method'', JStr ''mlir_npu''),
      (''audio_quality'', JStr ''high''),
      (''sample_rate'', JInt 24000),
      (''speed'', JReal 1),
      (''pitch'', JReal 1),
      (''auto_play'', JBool True),
      (''log_level'', JStr ''INFO''),
      (''max_text_length'', JInt 1000),
      (''show_advanced'', JBool False)]"

section \<open>In-process accelerated synthesis (kokoro_mlir_integration.py)\<close>

text \<open>
  What a run leaves behind, next to its result: the records logged at level WARNING or
  ERROR (the text before the exception and the exception printed after it; the INFO
  lines, which only report progress, are left out), and which engine was started. The
  accelerated pipeline \<open>_create_audio_npu_accelerated\<close> counts as \<open>Accelerated\<close>, the standard
  engine \<open>kokoro_standard.create\<close>, which the code calls the CPU fallback, as \<open>CPU\<close>. The
  third backend of the specification is \<open>BasicAccelerated\<close>.
\<close>

datatype level = INFO | WARNING | ERROR

datatype backend = Accelerated | BasicAccelerated | CPU

datatype event = Log level string "exn option" | Ran backend


text \<open>A voice is given by name or as a style table; the table of a voice has one style
  vector for each token count.\<close>

datatype voice = VoiceName string | VoiceStyle "real list list"

text \<open>The \<open>input_feed\<close> of the session; a model without a \<open>tokens\<close> input gets none.\<close>

record input_feed =
  tokens :: "int list list option"
  style :: "real list"
  speed :: real

text \<open>An output of the session: a zero-dimensional value or a one-dimensional array.\<close>

datatype tensor = Scalar real | Vector "real list"

text \<open>
  The object \<open>self\<close>: the flag of the accelerator, the methods of the \<open>kokoro_onnx\<close> engine
  that the class calls, the input names of the model, the \<open>run\<close> method of the ONNX session
  before it is wrapped, and the accelerator-side execution inside
  \<open>accelerated_inference\<close>.
\<close>

record integration =
  acceleration_enabled :: bool
  get_voice_style :: "string \<Rightarrow> exn + real list list"
  phonemize :: "string \<Rightarrow> string \<Rightarrow> exn + string"
  tokenize :: "string \<Rightarrow> exn + int list"
  standard_create :: "string \<Rightarrow> voice \<Rightarrow> real \<Rightarrow> string \<Rightarrow> exn + (audio \<times> int)"
  input_names :: "string list"
  original_run :: "input_feed \<Rightarrow> exn + tensor list"
  accelerator :: "input_feed \<Rightarrow> exn + tensor list"

text \<open>
  Modelled from the spec: \<open>KokoroNPUAcceleratorMLIR.accelerated_inference\<close> of the module
  \<open>kokoro_mlir_npu\<close>, which is not among the sources; only its caller
  \<open>_wrap_session_for_mlir_npu\<close> is. The specification (4.5) gives the contract
  \<open>acceleratedRun(defaultExec, inputs)\<close>: on any accelerator-side exception it catches the
  exception, logs a warning and invokes \<open>defaultExec\<close> on the unchanged inputs. The
  reshaping of a scalar result that 4.5 also asks for is done, in the sources, by
  \<open>_create_audio_npu_accelerated\<close> below.
\<close>

definition accelerated_inference ::
  "(input_feed \<Rightarrow> exn + tensor list) \<Rightarrow> (unit \<Rightarrow> exn + tensor list) \<Rightarrow> input_feed
     \<Rightarrow> (exn + tensor list) \<times> event list" where
  "accelerated_inference accel default_exec inputs =
     (case accel inputs of
        Inr outputs \<Rightarrow> (Inr outputs, [])
      | Inl e \<Rightarrow> (default_exec (), [Log WARNING ''NPU acceleration failed, using default execution: '' (Some e)]))"

text \<open>\<open>_wrap_session_for_mlir_npu\<close>: the replacement of \<open>session.run\<close>.\<close>

definition mlir_npu_accelerated_run :: "integration \<Rightarrow> input_feed \<Rightarrow> (exn + tensor list) \<times> event list" where
  "mlir_npu_accelerated_run self feed =
     accelerated_inference (accelerator self) (\<lambda>_. original_run self feed) feed"

text \<open>\<open>self.npu_session.run\<close> as \<open>_create_npu_session\<close> leaves it: wrapped when the
  acceleration is enabled.\<close>

definition npu_session_run :: "integration \<Rightarrow> input_feed \<Rightarrow> (exn + tensor list) \<times> event list" where
  "npu_session_run self feed =
     (if acceleration_enabled self then mlir_npu_accelerated_run self feed
      else (original_run self feed, []))"

definition handle_npu_optimized_model ::
  "integration \<Rightarrow> int list list \<Rightarrow> real list \<Rightarrow> real \<Rightarrow> (exn + tensor list) \<times> event list" where
  "handle_npu_optimized_model self tokens_padded style_v speed_v =
     (if ''tokens'' \<notin> set (input_names self)
      then npu_session_run self \<lparr>tokens = None, style = style_v, speed = speed_v\<rparr>
      else npu_session_run self \<lparr>tokens = Some tokens_padded, style = style_v, speed = speed_v\<rparr>)"

text \<open>\<open>voice_style[n]\<close>: an index outside the table raises \<open>IndexError\<close>.\<close>

definition style_at :: "real list list \<Rightarrow> nat \<Rightarrow> exn + real list" where
  "style_at voice_style n =
     (if n < length voice_style then Inr (voice_style ! n)
      else Inl (IndexError ''index is out of bounds for axis 0''))"

text \<open>
  \<open>_create_audio_npu_accelerated\<close> up to the \<open>input_feed\<close>: the voice style (looked up
  for a name, taken as it is otherwise), the phonemes, the tokens, the style for the
  token count and the padded tokens \<open>[[0, *tokens, 0]]\<close>.
\<close>

definition voice_style_of :: "integration \<Rightarrow> voice \<Rightarrow> exn + real list list" where
  "voice_style_of self voice =
     (case voice of VoiceName name \<Rightarrow> get_voice_style self name | VoiceStyle t \<Rightarrow> Inr t)"

definition prepare_inputs ::
  "integration \<Rightarrow> string \<Rightarrow> voice \<Rightarrow> real \<Rightarrow> string \<Rightarrow> exn + (int list list \<times> real list \<times> real)" where
  "prepare_inputs self text voice speed_v lang =
     (case voice_style_of self voice of
        Inl e \<Rightarrow> Inl e
      | Inr voice_style \<Rightarrow>
          if strip text \<noteq> [] then
            (case phonemize self text lang of
               Inl e \<Rightarrow> Inl e
             | Inr phonemes \<Rightarrow>
                 (case tokenize self phonemes of
                    Inl e \<Rightarrow> Inl e
                  | Inr toks \<Rightarrow>
                      (case style_at voice_style (length toks) of
                         Inl e \<Rightarrow> Inl e
                       | Inr voice_for_length \<Rightarrow>
                           Inr ([[0] @ toks @ [0]], voice_for_length, speed_v))))
          else Inl (ValueError ''Empty text provided''))"

text \<open>The rest of \<open>_create_audio_npu_accelerated\<close>; \<open>t0\<close> and \<open>t1\<close> are the two readings of
  \<open>time.time()\<close>. The real-time factor is computed for the log only.\<close>

definition create_audio_npu_accelerated ::
  "integration \<Rightarrow> real \<Rightarrow> real \<Rightarrow> string \<Rightarrow> voice \<Rightarrow> real \<Rightarrow> string
     \<Rightarrow> (exn + (audio \<times> int)) \<times> event list" where
  "create_audio_npu_accelerated self t0 t1 text voice speed_v lang =
     (case prepare_inputs self text voice speed_v lang of
        Inl e \<Rightarrow> (Inl e, [])
      | Inr (tokens_padded, voice_for_length, sp) \<Rightarrow>
          (case handle_npu_optimized_model self tokens_padded voice_for_length sp of
             (Inl e, evs) \<Rightarrow> (Inl e, evs)
           | (Inr result, evs) \<Rightarrow>
               (case result of
                  [] \<Rightarrow> (Inl (IndexError ''list index out of range''), evs)
                | out # _ \<Rightarrow>
                    (let (audio, evs') =
                           (case out of
                              Scalar x \<Rightarrow>
                                ([x], evs @ [Log WARNING ''Audio result is scalar, this might indicate an issue'' None])
                            | Vector xs \<Rightarrow> (xs, evs));
                         generation_time = t1 - t0;
                         sample_rate = 24000;
                         audio_duration = real (length audio) / real_of_int sample_rate
                     in case npu_rtf generation_time audio_duration of
                          Inl e \<Rightarrow> (Inl e, evs')
                        | Inr rtf \<Rightarrow> (Inr (audio, sample_rate), evs')))))"

text \<open>\<open>create_audio\<close>: the accelerated pipeline when the acceleration is enabled, the
  standard engine otherwise; the \<open>except Exception\<close> clause logs the error and calls the
  standard engine with the arguments of the request.\<close>

definition create_audio ::
  "integration \<Rightarrow> real \<Rightarrow> real \<Rightarrow> string \<Rightarrow> voice \<Rightarrow> real \<Rightarrow> string
     \<Rightarrow> (exn + (audio \<times> int)) \<times> event list" where
  "create_audio self t0 t1 text voice speed_v lang =
     (if acceleration_enabled self then
        (case create_audio_npu_accelerated self t0 t1 text voice speed_v lang of
           (Inr r, evs) \<Rightarrow> (Inr r, Ran Accelerated # evs)
         | (Inl e, evs) \<Rightarrow>
             (standard_create self text voice speed_v lang,
              Ran Accelerated # evs
                @ [Log ERROR ''MLIR-AIE NPU audio generation failed: '' (Some e), Ran CPU]))
      else
        (case standard_create self text voice speed_v lang of
           Inr r \<Rightarrow> (Inr r, [Ran CPU])
         | Inl e \<Rightarrow>
             (standard_create self text voice speed_v lang,
              [Ran CPU, Log ERROR ''MLIR-AIE NPU audio generation failed: '' (Some e), Ran CPU])))"

section \<open>The backend selector of the specification\<close>



section \<open>Sample inputs\<close>

text \<open>
  A worker run that exits with code 0 and prints a success line for an empty array of
  samples, and the dict that \<open>json.loads\<close> makes of that line.
\<close>

definition success_line :: string where
  \<open>success_line = ''{"success": true, "sample_rate": 24000, "audio_samples": 0, "audio_file": "/tmp/synthesis_result.npy", "method_used": "Real Kokoro TTS", "voice": "af_heart"}''\<close>

definition success_data :: json where
  "success_data = fst (synthesis_script (\<lambda>text voice. Inr ([], 24000)) ''...'' (JStr ''af_heart'') Map.empty)"

definition sample_loads :: "string \<Rightarrow> exn + json" where
  "sample_loads line =
     (if line = success_line then Inr success_data
      else Inl (JSONDecodeError ''Expecting value: line 1 column 1 (char 0)''))"

text \<open>A host whose worker saves the empty array and prints the success line after a
  diagnostic line, and a host whose worker prints the same while the artefact is not on
  disk when the serving process comes to load it.\<close>

definition sample_stdout :: string where
  "sample_stdout = ''loading model'' @ [CHR 0x0A] @ success_line @ [CHR 0x0A]"

definition silent_audio_host :: host where
  "silent_audio_host =
     \<lparr>subprocess_run = (\<lambda>text voice fs.
          (Inr \<lparr>returncode = 0, stdout = sample_stdout, stderr = []\<rparr>,
           fs(audio_file \<mapsto> []))),
      json_loads = sample_loads,
      array_dtype = Float32\<rparr>"

definition missing_artifact_host :: host where
  "missing_artifact_host =
     \<lparr>subprocess_run = (\<lambda>text voice fs.
          (Inr \<lparr>returncode = 0, stdout = sample_stdout, stderr = []\<rparr>,
           fs(audio_file := None))),
      json_loads = sample_loads,
      array_dtype = Float32\<rparr>"

text \<open>An engine that returns one sample, different for the text \<open>a\<close> and for other texts.\<close>

definition sample_engine :: "string \<Rightarrow> json \<Rightarrow> (string \<times> string) + (audio \<times> int)" where
  "sample_engine text voice = Inr (if text = ''a'' then [1 / 2] else [1 / 4], 24000)"

definition empty_server :: server where
  "empty_server = \<lparr>files = Map.empty, wav_files = Map.empty, performance_metrics = [], worker_calls = []\<rparr>"

definition hello_request :: json where
  "hello_request = JDict [(''text'', JStr ''Hello world''), (''voice'', JStr ''af_heart''), (''method'', JStr ''auto'')]"

text \<open>
  An integration whose voice \<open>af_heart\<close> has a style table of three rows, whose phonemizer
  returns the text and whose tokenizer returns the code points, whose standard engine and
  session return fixed samples, and whose accelerator fails.
\<close>

definition sample_integration :: "bool \<Rightarrow> integration" where
  "sample_integration enabled =
     \<lparr>acceleration_enabled = enabled,
      get_voice_style = (\<lambda>name. if name = ''af_heart'' then Inr [[1 / 10], [2 / 10], [3 / 10]]
                                else Inl (KeyError name)),
      phonemize = (\<lambda>text lang. Inr text),
      tokenize = (\<lambda>phonemes. Inr (map (\<lambda>c. int (of_char c)) phonemes)),
      standard_create = (\<lambda>text voice speed_v lang. Inr ([1 / 2], 24000)),
      input_names = [''tokens'', ''style'', ''speed''],
      original_run = (\<lambda>feed. Inr [Vector [1 / 4]]),
      accelerator = (\<lambda>feed. Inl (Exception (JStr ''device lost'')))\<rparr>"


section \<open>Properties of the floating-point rounding\<close>

lemma py_round_bounds: "\<lfloor>x\<rfloor> \<le> py_round x" "py_round x \<le> \<lfloor>x\<rfloor> + 1"
  by (simp_all add: py_round_def Let_def)

lemma py_round_of_int [simp]: "py_round (real_of_int n) = n"
  by (simp add: py_round_def)

lemma py_round_power2 [simp]: "py_round (2 ^ n) = 2 ^ n"
  using py_round_of_int [of "2 ^ n"] by simp

lemma py_round_mono:
  assumes "x \<le> y"
  shows "py_round x \<le> py_round y"
proof (cases "\<lfloor>x\<rfloor> = \<lfloor>y\<rfloor>")
  case True
  have "x - real_of_int \<lfloor>x\<rfloor> \<le> y - real_of_int \<lfloor>y\<rfloor>"
    using assms True by simp
  then show ?thesis using True
    by (auto simp: py_round_def Let_def)
next
  case False
  have "\<lfloor>x\<rfloor> \<le> \<lfloor>y\<rfloor>" using assms by (rule floor_mono)
  then have "\<lfloor>x\<rfloor> + 1 \<le> \<lfloor>y\<rfloor>" using False by simp
  then show ?thesis
    using py_round_bounds(2) [of x] py_round_bounds(1) [of y] by linarith
qed

lemma expo_bounds:
  assumes "0 < a"
  shows "2 powi expo a \<le> a" and "a < 2 powi (expo a + 1)"
proof -
  show "2 powi expo a \<le> a"
  proof (cases "1 \<le> a")
    case True
    define m where "m = \<lfloor>a\<rfloor>"
    have m: "0 < m" using True by (simp add: m_def)
    have b: "1 \<le> bitlen m" using m by (simp add: bitlen_alt_def)
    have "2 ^ nat (bitlen m - 1) \<le> m" using bitlen_bounds [OF m] ..
    then have "real_of_int (2 ^ nat (bitlen m - 1)) \<le> real_of_int m" by (rule of_int_le_iff [THEN iffD2])
    then have "2 ^ nat (bitlen m - 1) \<le> real_of_int m" by simp
    moreover have "real_of_int m \<le> a" by (simp add: m_def)
    ultimately have "2 ^ nat (bitlen m - 1) \<le> a" by linarith
    moreover have "(2::real) powi (bitlen m - 1) = 2 ^ nat (bitlen m - 1)"
      using b by (simp add: power_int_nonneg_exp)
    ultimately show ?thesis using True by (simp add: expo_def m_def)
  next
    case False
    define n where "n = \<lceil>1 / a\<rceil>"
    define k where "k = bitlen (n - 1)"
    have "1 < 1 / a" using False assms by simp
    then have n: "0 < n - 1" unfolding n_def by linarith
    have k: "1 \<le> k" using n by (simp add: k_def bitlen_alt_def)
    have "n - 1 < 2 ^ nat k" using bitlen_bounds [OF n] unfolding k_def ..
    then have "n \<le> 2 ^ nat k" by simp
    then have "real_of_int n \<le> real_of_int (2 ^ nat k)" by (rule of_int_le_iff [THEN iffD2])
    then have "real_of_int n \<le> 2 ^ nat k" by simp
    moreover have "1 / a \<le> real_of_int n" by (simp add: n_def)
    ultimately have "1 / a \<le> 2 ^ nat k" by linarith
    then have "1 / 2 ^ nat k \<le> a" using assms
      by (simp add: field_simps)
    moreover have "(2::real) powi (- k) = 1 / 2 ^ nat k"
      using k by (simp add: power_int_minus power_int_nonneg_exp field_simps)
    ultimately show ?thesis using False by (simp add: expo_def n_def k_def)
  qed
  show "a < 2 powi (expo a + 1)"
  proof (cases "1 \<le> a")
    case True
    define m where "m = \<lfloor>a\<rfloor>"
    have m: "0 < m" using True by (simp add: m_def)
    have b: "1 \<le> bitlen m" using m by (simp add: bitlen_alt_def)
    have "m < 2 ^ nat (bitlen m)" using bitlen_bounds [OF m] ..
    then have "m + 1 \<le> 2 ^ nat (bitlen m)" by simp
    then have "real_of_int (m + 1) \<le> real_of_int (2 ^ nat (bitlen m))" by (rule of_int_le_iff [THEN iffD2])
    then have "real_of_int (m + 1) \<le> 2 ^ nat (bitlen m)" by simp
    moreover have "a < real_of_int (m + 1)" unfolding m_def by linarith
    ultimately have "a < 2 ^ nat (bitlen m)" by linarith
    moreover have "(2::real) powi (bitlen m - 1 + 1) = 2 ^ nat (bitlen m)"
      using b by (simp add: power_int_nonneg_exp)
    ultimately show ?thesis using True by (simp add: expo_def m_def)
  next
    case False
    define n where "n = \<lceil>1 / a\<rceil>"
    define k where "k = bitlen (n - 1)"
    have "1 < 1 / a" using False assms by simp
    then have n: "0 < n - 1" unfolding n_def by linarith
    have k: "1 \<le> k" using n by (simp add: k_def bitlen_alt_def)
    have "2 ^ nat (k - 1) \<le> n - 1" using bitlen_bounds [OF n] unfolding k_def ..
    then have "real_of_int (2 ^ nat (k - 1)) \<le> real_of_int (n - 1)" by (rule of_int_le_iff [THEN iffD2])
    then have "2 ^ nat (k - 1) \<le> real_of_int (n - 1)" by simp
    moreover have "real_of_int (n - 1) < 1 / a" unfolding n_def by linarith
    ultimately have "2 ^ nat (k - 1) < 1 / a" by linarith
    then have "a < 1 / 2 ^ nat (k - 1)" using assms
      by (simp add: field_simps)
    moreover have "(2::real) powi (- k + 1) = 1 / 2 ^ nat (k - 1)"
    proof -
      have "- k + 1 = - (k - 1)" by simp
      then have "(2::real) powi (- k + 1) = inverse (2 powi (k - 1))"
        by (simp only: power_int_minus)
      also have "\<dots> = 1 / 2 ^ nat (k - 1)"
        using k by (simp add: power_int_nonneg_exp field_simps)
      finally show ?thesis .
    qed
    ultimately show ?thesis using False by (simp add: expo_def n_def k_def)
  qed
qed


lemma expo_mono:
  assumes "0 < a" and "a \<le> b"
  shows "expo a \<le> expo b"
proof (rule ccontr)
  assume "\<not> expo a \<le> expo b"
  then have "expo b + 1 \<le> expo a" by simp
  then have "(2::real) powi (expo b + 1) \<le> 2 powi expo a"
    by (rule power_int_increasing) simp
  moreover have "b < 2 powi (expo b + 1)" using assms by (intro expo_bounds) simp
  moreover have "2 powi expo a \<le> a" using assms by (intro expo_bounds)
  ultimately show False using assms(2) by linarith
qed

lemma ulp_pos: "0 < (2::real) powi n"
  by simp

lemma round_mag_upper:
  assumes "0 < a" and "1 \<le> p"
  shows "round_mag p emin a \<le> 2 powi (max emin (expo a) + 1)"
proof -
  define e where "e = max emin (expo a)"
  define u :: real where "u = 2 powi (e - int p + 1)"
  have u: "0 < u" by (simp add: u_def)
  have "a < 2 powi (expo a + 1)" using assms(1) by (rule expo_bounds)
  also have "\<dots> \<le> 2 powi (e + 1)"
    by (rule power_int_increasing) (simp_all add: e_def)
  finally have "a / u \<le> 2 powi (e + 1) / u"
    using u by (simp add: divide_right_mono)
  also have "2 powi (e + 1) / u = 2 powi (e + 1 - (e - int p + 1))"
    unfolding u_def by (rule power_int_diff [symmetric]) simp
  also have "\<dots> = real_of_int (2 ^ p)" by simp
  finally have "py_round (a / u) \<le> py_round (real_of_int (2 ^ p))" by (rule py_round_mono)
  then have "real_of_int (py_round (a / u)) \<le> 2 ^ p" by simp
  then have "u * real_of_int (py_round (a / u)) \<le> u * 2 ^ p"
    using u by simp
  also have "u * 2 ^ p = 2 powi (e - int p + 1) * 2 powi (int p)" by (simp add: u_def)
  also have "\<dots> = 2 powi (e - int p + 1 + int p)"
    by (rule power_int_add [symmetric]) simp
  also have "\<dots> = 2 powi (e + 1)" by simp
  finally show ?thesis by (simp add: round_mag_def Let_def e_def u_def)
qed

lemma round_mag_lower:
  assumes "0 < a" and "1 \<le> p" and "emin \<le> expo a"
  shows "2 powi (expo a) \<le> round_mag p emin a"
proof -
  define e where "e = expo a"
  define u :: real where "u = 2 powi (e - int p + 1)"
  have m: "max emin (expo a) = e" using assms(3) by (simp add: e_def)
  have u: "0 < u" by (simp add: u_def)
  have "2 powi e \<le> a" unfolding e_def using assms(1) by (rule expo_bounds)
  then have "2 powi e / u \<le> a / u" using u by (simp add: divide_right_mono)
  moreover have "2 powi e / u = 2 powi (e - (e - int p + 1))"
    unfolding u_def by (rule power_int_diff [symmetric]) simp
  moreover have "(2::real) powi (e - (e - int p + 1)) = real_of_int (2 ^ (p - 1))"
    using assms(2) by (simp add: power_int_nonneg_exp nat_diff_distrib)
  ultimately have "real_of_int (2 ^ (p - 1)) \<le> a / u" by simp
  then have "py_round (real_of_int (2 ^ (p - 1))) \<le> py_round (a / u)" by (rule py_round_mono)
  then have "2 ^ (p - 1) \<le> real_of_int (py_round (a / u))" by simp
  then have "u * 2 ^ (p - 1) \<le> u * real_of_int (py_round (a / u))"
    using u by simp
  moreover have "u * 2 ^ (p - 1) = 2 powi (e - int p + 1) * 2 powi (int (p - 1))" by (simp add: u_def)
  moreover have "(2::real) powi (e - int p + 1) * 2 powi (int (p - 1)) = 2 powi (e - int p + 1 + int (p - 1))"
    by (rule power_int_add [symmetric]) simp
  moreover have "e - int p + 1 + int (p - 1) = e" using assms(2) by simp
  ultimately have "2 powi e \<le> u * real_of_int (py_round (a / u))" by simp
  then show ?thesis unfolding round_mag_def Let_def m u_def e_def .
qed

lemma round_mag_nonneg:
  assumes "0 < a"
  shows "0 \<le> round_mag p emin a"
proof -
  define u :: real where "u = 2 powi (max emin (expo a) - int p + 1)"
  have u: "0 < u" by (simp add: u_def)
  then have "0 \<le> a / u" using assms by simp
  then have "0 \<le> \<lfloor>a / u\<rfloor>" by simp
  then have "0 \<le> py_round (a / u)" using py_round_bounds(1) [of "a / u"] by linarith
  then show ?thesis using u by (simp add: round_mag_def Let_def u_def)
qed

lemma round_mag_mono:
  assumes "0 < a" and "a \<le> b" and "1 \<le> p"
  shows "round_mag p emin a \<le> round_mag p emin b"
proof -
  have b: "0 < b" using assms by simp
  have e: "expo a \<le> expo b" using assms(1,2) by (rule expo_mono)
  show ?thesis
  proof (cases "max emin (expo a) = max emin (expo b)")
    case True
    define u :: real where "u = 2 powi (max emin (expo b) - int p + 1)"
    have u: "0 < u" by (simp add: u_def)
    have "a / u \<le> b / u" using assms(2) u by (simp add: divide_right_mono)
    then have "py_round (a / u) \<le> py_round (b / u)" by (rule py_round_mono)
    then have "u * real_of_int (py_round (a / u)) \<le> u * real_of_int (py_round (b / u))"
      using u by simp
    then show ?thesis by (simp add: round_mag_def Let_def True u_def)
  next
    case False
    then have lt: "max emin (expo a) < expo b" and n: "emin \<le> expo b" using e by auto
    have "round_mag p emin a \<le> 2 powi (max emin (expo a) + 1)"
      using assms(1,3) by (rule round_mag_upper)
    also have "\<dots> \<le> 2 powi (expo b)"
      using lt by (intro power_int_increasing) auto
    also have "\<dots> \<le> round_mag p emin b"
      using b assms(3) n by (rule round_mag_lower)
    finally show ?thesis .
  qed
qed

lemma round_mag_of_int:
  assumes "1 \<le> k" and "k < 2 ^ p" and "emin \<le> 0"
  shows "round_mag p emin (real_of_int k) = real_of_int k"
proof -
  define e where "e = expo (real_of_int k)"
  have k: "0 < real_of_int k" using assms(1) by simp
  have "1 \<le> bitlen k" using assms(1) by (simp add: bitlen_alt_def)
  then have e0: "0 \<le> e" using assms(1) by (simp add: e_def expo_def)
  have "2 powi e \<le> real_of_int k" unfolding e_def using k by (rule expo_bounds)
  also have "real_of_int k < 2 ^ p" using assms(2) by (metis of_int_less_iff of_int_numeral of_int_power)
  finally have "(2::real) powi e < 2 powi (int p)" by simp
  then have ep: "e < int p" by (rule power_int_le_imp_less_exp [rotated]) simp_all
  have m: "max emin e = e" using e0 assms(3) by simp
  define d where "d = nat (int p - 1 - e)"
  have u: "(2::real) powi (e - int p + 1) = 1 / 2 ^ d"
  proof -
    have "e - int p + 1 = - int d" using ep by (simp add: d_def)
    then have "(2::real) powi (e - int p + 1) = 2 powi (- int d)" by (simp only:)
    also have "\<dots> = inverse (2 powi int d)" by (rule power_int_minus)
    also have "\<dots> = 1 / 2 ^ d" by (simp add: inverse_eq_divide)
    finally show ?thesis .
  qed
  have "real_of_int k / (1 / 2 ^ d) = real_of_int (k * 2 ^ d)" by simp
  then have "py_round (real_of_int k / (1 / 2 ^ d)) = k * 2 ^ d"
    by (simp only: py_round_of_int)
  then show ?thesis
    by (simp add: round_mag_def Let_def e_def [symmetric] m u)
qed

lemma round_binary_mono:
  assumes "1 \<le> p" and "x \<le> y"
  shows "round_binary p emin x \<le> round_binary p emin y"
proof -
  consider "0 < x" | "x = 0" | "x < 0" "y < 0" | "x < 0" "y = 0" | "x < 0" "0 < y" by linarith
  then show ?thesis
  proof cases
    case 1
    then show ?thesis using assms round_mag_mono [of x y p emin]
      by (simp add: round_binary_def)
  next
    case 2
    then show ?thesis using assms round_mag_nonneg [of y p emin]
      by (cases "y = 0") (simp_all add: round_binary_def)
  next
    case 3
    then have "round_mag p emin \<bar>y\<bar> \<le> round_mag p emin \<bar>x\<bar>"
      using assms by (intro round_mag_mono) simp_all
    then show ?thesis using 3 by (simp add: round_binary_def)
  next
    case 4
    then show ?thesis using round_mag_nonneg [of "\<bar>x\<bar>" p emin]
      by (simp add: round_binary_def)
  next
    case 5
    then show ?thesis
      using round_mag_nonneg [of "\<bar>x\<bar>" p emin] round_mag_nonneg [of y p emin]
      by (simp add: round_binary_def)
  qed
qed

lemma round_binary_of_int:
  assumes "\<bar>k\<bar> < 2 ^ p" and "emin \<le> 0"
  shows "round_binary p emin (real_of_int k) = real_of_int k"
proof -
  consider "k = 0" | "0 < k" | "k < 0" by linarith
  then show ?thesis
  proof cases
    case 1
    then show ?thesis by (simp add: round_binary_def)
  next
    case 2
    then show ?thesis using assms round_mag_of_int [of k p emin]
      by (simp add: round_binary_def)
  next
    case 3
    then have "round_mag p emin (real_of_int (- k)) = real_of_int (- k)"
      using assms by (intro round_mag_of_int) simp_all
    then show ?thesis using 3 by (simp add: round_binary_def)
  qed
qed

section \<open>Properties of the PCM conversion\<close>

lemma round_float_mono: "x \<le> y \<Longrightarrow> round_float dt x \<le> round_float dt y"
  by (cases dt) (simp_all add: round_binary_mono)

lemma round_float_of_int:
  assumes "\<bar>k\<bar> \<le> 32767"
  shows "round_float dt (real_of_int k) = real_of_int k"
proof -
  have "\<bar>k\<bar> < 2 ^ 24" and "\<bar>k\<bar> < 2 ^ 53" using assms by simp_all
  then show ?thesis by (cases dt) (simp_all add: round_binary_of_int)
qed

lemma sint_int16_in_range:
  assumes "- 32768 \<le> k" "k < 32768"
  shows "sint (word_of_int k :: 16 word) = k"
  using assms by (simp add: sint_sbintrunc' signed_take_bit_int_eq_self)

lemma trunc_rounded_bounds:
  fixes y :: real and dt :: dtype
  assumes "- 32767 \<le> y" "y \<le> 32767"
  defines "r \<equiv> round_float dt y"
  defines "k \<equiv> (if 0 \<le> r then \<lfloor>r\<rfloor> else \<lceil>r\<rceil>)"
  shows "- 32767 \<le> k" and "k \<le> 32767" and "\<bar>y - real_of_int k\<bar> < 1"
proof -
  define n where "n = \<lfloor>y\<rfloor>"
  have n: "real_of_int n \<le> y" "y < real_of_int n + 1" unfolding n_def by linarith+
  have nb: "- 32767 \<le> n" "n \<le> 32767" using assms(1,2) unfolding n_def by linarith+
  have lo: "real_of_int n \<le> r"
  proof -
    have "round_float dt (real_of_int n) \<le> round_float dt y" using n(1) by (rule round_float_mono)
    moreover have "round_float dt (real_of_int n) = real_of_int n"
      using nb by (intro round_float_of_int) simp
    ultimately show ?thesis by (simp add: r_def)
  qed
  have hi: "r \<le> real_of_int n + 1"
  proof (cases "n = 32767")
    case True
    then have "y = real_of_int n" using n(1) assms(2) by simp
    then have "r = real_of_int n"
      unfolding r_def using nb by (simp add: round_float_of_int)
    then show ?thesis by simp
  next
    case False
    have "round_float dt y \<le> round_float dt (real_of_int (n + 1))"
      using n(2) by (intro round_float_mono) simp
    moreover have "round_float dt (real_of_int (n + 1)) = real_of_int (n + 1)"
      using nb False by (intro round_float_of_int) simp
    ultimately show ?thesis by (simp add: r_def)
  qed
  have ex: "r = real_of_int n" if "y = real_of_int n"
    unfolding r_def that using nb by (intro round_float_of_int) simp
  have k: "k = n \<or> (k = n + 1 \<and> y \<noteq> real_of_int n)"
  proof (cases "r = real_of_int n")
    case True
    then show ?thesis by (simp add: k_def)
  next
    case False
    then have "real_of_int n < r" using lo by simp
    then have c: "\<lceil>r\<rceil> = n + 1" using hi by (simp add: ceiling_unique)
    have f: "\<lfloor>r\<rfloor> = n \<or> \<lfloor>r\<rfloor> = n + 1" using lo hi by linarith
    have "y \<noteq> real_of_int n" using ex False by blast
    then show ?thesis
    proof (cases "r = real_of_int n + 1")
      case True
      then have "\<lfloor>r\<rfloor> = n + 1" by simp
      then show ?thesis using c \<open>y \<noteq> real_of_int n\<close> by (simp add: k_def)
    next
      case False
      then have "r < real_of_int n + 1" using hi by simp
      then have fl: "\<lfloor>r\<rfloor> = n" using lo by (simp add: floor_unique)
      show ?thesis using fl c \<open>y \<noteq> real_of_int n\<close> by (simp add: k_def)
    qed
  qed
  show "- 32767 \<le> k"
  proof -
    have "real_of_int (- 32767) \<le> r"
      using round_float_mono [OF assms(1), of dt] round_float_of_int [of "- 32767" dt]
      by (simp add: r_def)
    then show ?thesis unfolding k_def by (auto simp: le_floor_iff le_ceiling_iff)
  qed
  show "k \<le> 32767"
  proof -
    have "r \<le> real_of_int 32767"
      using round_float_mono [OF assms(2), of dt] round_float_of_int [of 32767 dt]
      by (simp add: r_def)
    then show ?thesis unfolding k_def by (auto simp: floor_le_iff ceiling_le_iff)
  qed
  show "\<bar>y - real_of_int k\<bar> < 1"
    using k n by auto
qed

lemma sample_roundtrip:
  fixes x :: real
  assumes "- 1 \<le> x" "x \<le> 1"
  shows "\<bar>x - pcm_read_rescaled (astype_int16 (round_float dt (np_clip x (- 1) 1 * 32767)))\<bar> < 1 / 32767"
proof -
  define r where "r = round_float dt (x * 32767)"
  define k where "k = (if 0 \<le> r then \<lfloor>r\<rfloor> else \<lceil>r\<rceil>)"
  have clip: "np_clip x (- 1) 1 = x" using assms by (simp add: np_clip_def)
  have y: "- 32767 \<le> x * 32767" "x * 32767 \<le> 32767" using assms by simp_all
  have b: "- 32767 \<le> k" "k \<le> 32767" "\<bar>x * 32767 - real_of_int k\<bar> < 1"
    using trunc_rounded_bounds [OF y, of dt] unfolding k_def r_def by simp_all
  have s: "sint (word_of_int k :: 16 word) = k"
    using b by (intro sint_int16_in_range) simp_all
  have r: "pcm_read_rescaled (astype_int16 (round_float dt (np_clip x (- 1) 1 * 32767))) = real_of_int k / 32767"
    unfolding clip astype_int16_def pcm_read_rescaled_def r_def [symmetric] k_def [symmetric] s ..
  have "\<bar>x - real_of_int k / 32767\<bar> = \<bar>(x * 32767 - real_of_int k) / 32767\<bar>"
    by (simp add: diff_divide_distrib)
  also have "\<dots> = \<bar>x * 32767 - real_of_int k\<bar> / 32767"
    by simp
  also have "\<dots> < 1 / 32767"
    using b(3) by (rule divide_strict_right_mono) simp
  finally show ?thesis unfolding r .
qed

lemma bitlen_1: "bitlen 1 = 1"
  by (simp add: bitlen_alt_def)

lemma bitlen_16383: "bitlen 16383 = 14"
  by code_simp

lemma sample_int16:
  "audio_int16 Float32 [32769 / 2 ^ 30, - (1 / 2)] = [1, - 16383]"
  by (simp add: audio_int16_def astype_int16_def np_clip_def round_binary_def round_mag_def
      expo_def py_round_def bitlen_1 bitlen_16383 Let_def)

text \<open>
  Claim C8. For every array of samples with values in \<open>[-1, 1]\<close>, of type \<open>float32\<close> or
  \<open>float64\<close>, the 16-bit PCM samples that \<open>synthesize\<close> writes (clip, multiply by 32767 in
  the arithmetic of the array, drop the fraction, store as int16), read back and divided
  by 32767, are as many as the originals and differ from each original sample by at
  most \<open>1/32767\<close>.
\<close>

theorem pcm_roundtrip_within_quantization:
  assumes "\<forall>x \<in> set audio. - 1 \<le> x \<and> x \<le> 1"
  shows "length (audio_int16 dt audio) = length audio \<and>
         (\<forall>i < length audio. \<bar>audio ! i - pcm_read_rescaled (audio_int16 dt audio ! i)\<bar> \<le> 1 / 32767)"
proof (intro conjI allI impI)
  show "length (audio_int16 dt audio) = length audio" by (simp add: audio_int16_def)
next
  fix i assume i: "i < length audio"
  then have "- 1 \<le> audio ! i \<and> audio ! i \<le> 1" using assms by simp
  then have "\<bar>audio ! i - pcm_read_rescaled (astype_int16 (round_float dt (np_clip (audio ! i) (- 1) 1 * 32767)))\<bar> < 1 / 32767"
    using sample_roundtrip by blast
  then show "\<bar>audio ! i - pcm_read_rescaled (audio_int16 dt audio ! i)\<bar> \<le> 1 / 32767"
    using i by (simp add: audio_int16_def)
qed

theorem pcm_roundtrip_witness:
  "(- 1 \<le> (32769 / 2 ^ 30 :: real) \<and> (32769 / 2 ^ 30 :: real) \<le> 1) \<and> (- 1 \<le> (- (1 / 2) :: real) \<and> (- (1 / 2) :: real) \<le> 1) \<and>
   audio_int16 Float32 [32769 / 2 ^ 30, - (1 / 2)] = [1, - 16383] \<and>
   \<bar>32769 / 2 ^ 30 - pcm_read_rescaled (audio_int16 Float32 [32769 / 2 ^ 30, - (1 / 2)] ! 0)\<bar> \<le> 1 / 32767 \<and>
   \<bar>- (1 / 2) - pcm_read_rescaled (audio_int16 Float32 [32769 / 2 ^ 30, - (1 / 2)] ! 1)\<bar> \<le> 1 / 32767"
proof -
  have h: "\<forall>x \<in> set [32769 / 2 ^ 30, - (1 / 2) :: real]. - 1 \<le> x \<and> x \<le> 1" by simp
  have r: "\<forall>i < length [32769 / 2 ^ 30, - (1 / 2) :: real]. \<bar>[32769 / 2 ^ 30, - (1 / 2) :: real] ! i
        - pcm_read_rescaled (audio_int16 Float32 [32769 / 2 ^ 30, - (1 / 2)] ! i)\<bar> \<le> 1 / 32767"
    using pcm_roundtrip_within_quantization [OF h, of Float32] by blast
  have r0: "\<bar>32769 / 2 ^ 30 - pcm_read_rescaled (audio_int16 Float32 [32769 / 2 ^ 30, - (1 / 2)] ! 0)\<bar> \<le> 1 / 32767"
    using r [rule_format, of 0] by simp
  have r1: "\<bar>- (1 / 2) - pcm_read_rescaled (audio_int16 Float32 [32769 / 2 ^ 30, - (1 / 2)] ! 1)\<bar> \<le> 1 / 32767"
    using r [rule_format, of 1] by simp
  have b: "- 1 \<le> (32769 / 2 ^ 30 :: real)" "(32769 / 2 ^ 30 :: real) \<le> 1"
    "- 1 \<le> (- (1 / 2) :: real)" "(- (1 / 2) :: real) \<le> 1"
    by simp_all
  show ?thesis
    by (intro conjI b sample_int16 r0 r1)
qed

section \<open>Properties of the real-time factor\<close>

lemma npu_rtf_never_raises: "\<exists>r. npu_rtf generation_time audio_duration = Inr r"
  by (simp add: npu_rtf_def truediv_def)

lemma npu_rtf_zero_duration: "npu_rtf generation_time 0 = Inr 0"
  by (simp add: npu_rtf_def)

lemma npu_rtf_quotient:
  "0 < audio_duration \<Longrightarrow> npu_rtf generation_time audio_duration = Inr (generation_time / audio_duration)"
  by (simp add: npu_rtf_def truediv_def)

lemma synthesize_body_empty_audio:
  assumes "run_synthesis_subprocess h text voice method (files sv) = (Inr (SynthesisOk [] sample_rate mu v), fs)"
    and "write_wav sample_rate 0 = Inr (framerate, rate)"
  shows "fst (synthesize_body h hex8 t0 t1 text voice method sv) = Inl (ZeroDivisionError ''float division by zero'')"
proof -
  have "0 < rate" using assms(2)
    by (auto simp: write_wav_def Let_def split: option.splits if_splits)
  then show ?thesis using assms
    by (simp add: synthesize_body_def Let_def truediv_def)
qed

lemma find_json_line_sample:
  "find_json_line (split (CHR 0x0A) (strip sample_stdout)) = Some success_line"
  by (simp add: sample_stdout_def success_line_def strip_def py_isspace_def startswith_def endswith_def)

lemma strip_sample_nonempty:
  "strip sample_stdout \<noteq> []"
  by (simp add: sample_stdout_def success_line_def strip_def py_isspace_def)

lemma success_data_eq:
  "success_data = JDict [(''success'', JBool True), (''sample_rate'', JInt 24000),
     (''audio_samples'', JInt 0), (''audio_file'', JStr audio_file),
     (''method_used'', JStr ''Real Kokoro TTS''), (''voice'', JStr ''af_heart'')]"
  by (simp add: success_data_def synthesis_script_def)

lemma load_result_success_data:
  "load_result success_data fs =
     (case fs audio_file of
        None \<Rightarrow> (Inl (FileNotFoundError audio_file), fs)
      | Some a \<Rightarrow> (Inr (SynthesisOk a (JInt 24000) (JStr ''Real Kokoro TTS'') (JStr ''af_heart'')), fs(audio_file := None)))"
  by (simp add: success_data_eq load_result_def np_load_def unlink_def split: option.splits)

lemma run_silent_audio_host:
  "run_synthesis_subprocess silent_audio_host text voice method fs =
     (Inr (SynthesisOk [] (JInt 24000) (JStr ''Real Kokoro TTS'') (JStr ''af_heart'')), fs(audio_file := None))"
  by (simp add: run_synthesis_subprocess_def silent_audio_host_def read_worker_def
      find_json_line_sample strip_sample_nonempty sample_loads_def load_result_success_data)

text \<open>
  Claim C2, at the input where the code departs from it: the worker returns an empty
  array of samples at 24000 Hz. \<open>synthesize\<close> divides the generation time by the audio
  duration 0; the \<open>ZeroDivisionError\<close> ends in the 500 response. The accelerated pipeline
  guards the same division (\<open>npu_rtf_zero_duration\<close>).
\<close>

theorem synthesize_rtf_division_by_zero:
  "fst (synthesize silent_audio_host ''0a1b2c3d'' 10 11 hello_request empty_server)
     = Http500 (ZeroDivisionError ''float division by zero'')"
proof -
  have s: "write_wav (JInt 24000) 0 = Inr (24000, 24000)"
    by (simp add: write_wav_def py_round_def)
  have b: "fst (synthesize_body silent_audio_host ''0a1b2c3d'' 10 11 ''Hello world'' (JStr ''af_heart'') (JStr ''auto'') empty_server)
     = Inl (ZeroDivisionError ''float division by zero'')"
    by (rule synthesize_body_empty_audio [OF run_silent_audio_host s])
  have n: "strip ''Hello world'' \<noteq> []"
    by (simp add: strip_def py_isspace_def)
  show ?thesis using b n
    by (auto simp: synthesize_def hello_request_def get_default_def split: prod.splits sum.splits)
qed


section \<open>Properties of the worker protocol\<close>

lemma read_worker_nonzero_exit:
  assumes "returncode result \<noteq> 0"
  shows "read_worker h result fs =
     (Inr (SynthesisFailed (JStr (''Subprocess failed with code '' @ str_int (returncode result)
        @ ''. STDOUT: '' @ quoted (stdout result) @ '', STDERR: '' @ quoted (stderr result)))), fs)"
  using assms by (simp add: read_worker_def)

lemma read_worker_empty_output:
  assumes "returncode result = 0" and "strip (stdout result) = []"
  shows "read_worker h result fs =
     (Inr (SynthesisFailed (JStr (''Subprocess returned empty output. STDERR: '' @ stderr result))), fs)"
  using assms by (simp add: read_worker_def)

lemma read_worker_no_json_line:
  assumes "returncode result = 0" and "strip (stdout result) \<noteq> []"
    and "find_json_line (split (CHR 0x0A) (strip (stdout result))) = None"
  shows "read_worker h result fs =
     (Inr (SynthesisFailed (JStr (''No JSON found in output. STDOUT: '' @ quoted (stdout result)
        @ '', STDERR: '' @ quoted (stderr result)))), fs)"
  using assms by (simp add: read_worker_def)

lemma read_worker_unparsable_line:
  assumes "returncode result = 0" and "strip (stdout result) \<noteq> []"
    and "find_json_line (split (CHR 0x0A) (strip (stdout result))) = Some line"
    and "json_loads h line = Inl (JSONDecodeError msg)"
  shows "read_worker h result fs =
     (Inr (SynthesisFailed (JStr (''JSON parse error: '' @ msg @ ''. STDOUT: '' @ quoted (stdout result)
        @ '', STDERR: '' @ quoted (stderr result)))), fs)"
  using assms by (simp add: read_worker_def)

lemma load_result_missing_artifact:
  assumes "subscript data ''success'' = Inr s" and "truthy s"
    and "subscript data ''audio_file'' = Inr (JStr path)" and "fs path = None"
  shows "load_result data fs = (Inl (FileNotFoundError path), fs)"
  using assms by (simp add: load_result_def np_load_def)

lemma load_result_missing_key:
  assumes "map_of kvs ''success'' = None"
  shows "load_result (JDict kvs) fs = (Inl (KeyError ''success''), fs)"
  using assms by (simp add: load_result_def)

lemma run_missing_artifact_host:
  "run_synthesis_subprocess missing_artifact_host text voice method fs =
     (Inl (FileNotFoundError audio_file), fs(audio_file := None))"
  by (simp add: run_synthesis_subprocess_def missing_artifact_host_def read_worker_def
      find_json_line_sample strip_sample_nonempty sample_loads_def load_result_success_data)

text \<open>
  Claim C3, at the input where the code departs from it: the worker exits with code 0
  and prints a success line that names \<open>/tmp/synthesis_result.npy\<close>, and that file is not
  on disk. \<open>run_synthesis_subprocess\<close> does not return a result with \<open>success\<close> false: the
  \<open>FileNotFoundError\<close> of \<open>np.load\<close> leaves the function, and the 500 response that
  \<open>synthesize\<close> makes of it holds neither the standard output nor the standard error.
\<close>

theorem missing_artifact_escapes:
  "fst (run_synthesis_subprocess missing_artifact_host ''Hello world'' (JStr ''af_heart'') (JStr ''auto'') Map.empty)
     = Inl (FileNotFoundError ''/tmp/synthesis_result.npy'') \<and>
   fst (synthesize missing_artifact_host ''0a1b2c3d'' 10 11 hello_request empty_server)
     = Http500 (FileNotFoundError ''/tmp/synthesis_result.npy'')"
proof -
  have n: "strip ''Hello world'' \<noteq> []"
    by (simp add: strip_def py_isspace_def)
  have a: "audio_file = ''/tmp/synthesis_result.npy''"
    by (simp add: audio_file_def)
  have "fst (synthesize missing_artifact_host ''0a1b2c3d'' 10 11 hello_request empty_server)
     = Http500 (FileNotFoundError audio_file)"
    using n
    by (simp add: synthesize_def hello_request_def get_default_def synthesize_body_def
        run_missing_artifact_host Let_def)
  then show ?thesis unfolding a [symmetric]
    by (simp add: run_missing_artifact_host)
qed

section \<open>Blank text\<close>

lemma prepare_inputs_blank:
  assumes "strip text = []"
  shows "prepare_inputs self text voice speed_v lang =
     (case voice_style_of self voice of Inl e \<Rightarrow> Inl e | Inr t \<Rightarrow> Inl (ValueError ''Empty text provided''))"
  using assms by (simp add: prepare_inputs_def split: sum.splits)

text \<open>
  Claim C6. For a request whose text is a string that is blank after trimming, or that
  has no text, \<open>POST /synthesize\<close> answers 400 with \<open>success\<close> false and leaves the server
  state as it was: no worker is started and no file written. The accelerated pipeline
  raises on such a text before it phonemizes anything and before the session runs.
\<close>

theorem blank_text_rejected:
  assumes "strip text = []"
    and "get_default data ''text'' (JStr []) = Inr (JStr text)"
  shows "synthesize h hex8 t0 t1 data sv = (Http400 ''No text provided for synthesis'', sv)
       \<and> status (fst (synthesize h hex8 t0 t1 data sv)) = 400
       \<and> \<not> success (fst (synthesize h hex8 t0 t1 data sv))
       \<and> worker_calls (snd (synthesize h hex8 t0 t1 data sv)) = worker_calls sv
       \<and> (\<exists>e. prepare_inputs self text voice speed_v lang = Inl e)
       \<and> (\<exists>e. create_audio_npu_accelerated self t0 t1 text voice speed_v lang = (Inl e, []))"
proof -
  obtain kvs where d: "data = JDict kvs"
    using assms(2) by (cases data) (simp_all add: get_default_def)
  have s: "synthesize h hex8 t0 t1 data sv = (Http400 ''No text provided for synthesis'', sv)"
    using assms by (simp add: synthesize_def) (simp add: d get_default_def)
  have p: "\<exists>e. prepare_inputs self text voice speed_v lang = Inl e"
    using assms(1) by (simp add: prepare_inputs_blank split: sum.splits)
  then have c: "\<exists>e. create_audio_npu_accelerated self t0 t1 text voice speed_v lang = (Inl e, [])"
    by (auto simp: create_audio_npu_accelerated_def)
  show ?thesis using s p c by simp
qed

theorem blank_text_rejected_witness:
  "strip ''  '' = [] \<and>
   get_default (JDict [(''text'', JStr ''  ''), (''voice'', JStr ''af_heart'')]) ''text'' (JStr []) = Inr (JStr ''  '') \<and>
   synthesize silent_audio_host ''0a1b2c3d'' 10 11 (JDict [(''text'', JStr ''  ''), (''voice'', JStr ''af_heart'')]) empty_server
     = (Http400 ''No text provided for synthesis'', empty_server) \<and>
   prepare_inputs (sample_integration True) ''  '' (VoiceName ''af_heart'') 1 ''en-us''
     = Inl (ValueError ''Empty text provided'')"
proof -
  have b: "strip ''  '' = []"
    by (simp add: strip_def py_isspace_def)
  have m: "get_default (JDict [(''text'', JStr ''  ''), (''voice'', JStr ''af_heart'')]) ''text'' (JStr []) = Inr (JStr ''  '')"
    by (simp add: get_default_def)
  have p: "prepare_inputs (sample_integration True) ''  '' (VoiceName ''af_heart'') 1 ''en-us''
     = Inl (ValueError ''Empty text provided'')"
    using b by (simp add: prepare_inputs_blank voice_style_of_def sample_integration_def)
  show ?thesis
    using b m p blank_text_rejected [OF b m, of silent_audio_host "''0a1b2c3d''" 10 11 empty_server]
    by simp
qed

section \<open>Settings\<close>

lemma dom_update_settings: "dom (update_settings st items) = dom st"
proof (induction items arbitrary: st)
  case Nil
  show ?case by simp
next
  case (Cons item items)
  obtain key val where i: "item = (key, val)" by (cases item)
  show ?case
  proof (cases "st key")
    case None
    then show ?thesis using Cons.IH [of st] by (simp add: i)
  next
    case (Some old)
    then have "dom (st(key \<mapsto> val)) = dom st" by auto
    moreover have "dom (update_settings (st(key \<mapsto> val)) items) = dom (st(key \<mapsto> val))"
      by (rule Cons.IH)
    moreover have "update_settings st (item # items) = update_settings (st(key \<mapsto> val)) items"
      using Some by (simp add: i)
    ultimately show ?thesis by (simp only:)
  qed
qed

lemma update_settings_other:
  "k \<notin> fst ` set items \<Longrightarrow> update_settings st items k = st k"
proof (induction items arbitrary: st)
  case Nil
  show ?case by simp
next
  case (Cons item items)
  obtain key val where i: "item = (key, val)" by (cases item)
  have k: "k \<noteq> key" and r: "k \<notin> fst ` set items" using Cons.prems by (auto simp: i)
  show ?case using Cons.IH [OF r] k by (simp add: i split: option.splits)
qed

lemma settings_post_settings:
  "APP_SETTINGS (snd (settings_post level_of data st)) =
     (case data of JDict items \<Rightarrow> update_settings (APP_SETTINGS st) items | _ \<Rightarrow> APP_SETTINGS st)"
  by (simp add: settings_post_def Let_def split: json.splits option.splits sum.splits)

text \<open>
  Claim C9. Whatever the body of \<open>POST /settings\<close> is, and whether or not the handler
  raises on its \<open>log_level\<close>, the settings afterwards have the keys they had before, and
  every key that the body does not mention keeps its value. A key of the body that the
  settings do not have is therefore not added.
\<close>

theorem settings_post_frame:
  "dom (APP_SETTINGS (snd (settings_post level_of data st))) = dom (APP_SETTINGS st) \<and>
   (\<forall>k. k \<notin> payload_keys data \<longrightarrow>
      APP_SETTINGS (snd (settings_post level_of data st)) k = APP_SETTINGS st k)"
  by (cases data)
    (simp_all add: settings_post_settings dom_update_settings update_settings_other payload_keys_def)

theorem settings_post_frame_witness:
  "dom (APP_SETTINGS (snd (settings_post (\<lambda>name. Inr 20)
          (JDict [(''speed'', JReal 2), (''theme'', JStr ''dark'')])
          \<lparr>APP_SETTINGS = default_settings, root_level = 20\<rparr>))) = dom default_settings \<and>
   ''pitch'' \<notin> payload_keys (JDict [(''speed'', JReal 2), (''theme'', JStr ''dark'')]) \<and>
   APP_SETTINGS (snd (settings_post (\<lambda>name. Inr 20)
          (JDict [(''speed'', JReal 2), (''theme'', JStr ''dark'')])
          \<lparr>APP_SETTINGS = default_settings, root_level = 20\<rparr>)) ''pitch'' = Some (JReal 1) \<and>
   APP_SETTINGS (snd (settings_post (\<lambda>name. Inr 20)
          (JDict [(''speed'', JReal 2), (''theme'', JStr ''dark'')])
          \<lparr>APP_SETTINGS = default_settings, root_level = 20\<rparr>)) ''speed'' = Some (JReal 2) \<and>
   APP_SETTINGS (snd (settings_post (\<lambda>name. Inr 20)
          (JDict [(''speed'', JReal 2), (''theme'', JStr ''dark'')])
          \<lparr>APP_SETTINGS = default_settings, root_level = 20\<rparr>)) ''theme'' = None"
proof -
  have k: "''pitch'' \<notin> payload_keys (JDict [(''speed'', JReal 2), (''theme'', JStr ''dark'')])"
    by (simp add: payload_keys_def)
  have d: "default_settings ''pitch'' = Some (JReal 1)"
    by (simp add: default_settings_def)
  have u: "APP_SETTINGS (snd (settings_post (\<lambda>name. Inr 20)
          (JDict [(''speed'', JReal 2), (''theme'', JStr ''dark'')])
          \<lparr>APP_SETTINGS = default_settings, root_level = 20\<rparr>)) ''speed'' = Some (JReal 2)"
    by (simp add: settings_post_settings default_settings_def)
  have t: "APP_SETTINGS (snd (settings_post (\<lambda>name. Inr 20)
          (JDict [(''speed'', JReal 2), (''theme'', JStr ''dark'')])
          \<lparr>APP_SETTINGS = default_settings, root_level = 20\<rparr>)) ''theme'' = None"
    by (simp add: settings_post_settings default_settings_def)
  show ?thesis
    using k d u t
      settings_post_frame [of "\<lambda>name. Inr 20" "JDict [(''speed'', JReal 2), (''theme'', JStr ''dark'')]"
        "\<lparr>APP_SETTINGS = default_settings, root_level = 20\<rparr>"]
    by simp
qed

section \<open>The artefact of the worker\<close>

lemma synthesis_script_success:
  assumes "kokoro_create text voice = Inr (a, sr)"
  shows "synthesis_script kokoro_create text voice fs =
     (JDict [(''success'', JBool True), (''sample_rate'', JInt sr),
             (''audio_samples'', JInt (int (length a))), (''audio_file'', JStr audio_file),
             (''method_used'', JStr ''Real Kokoro TTS''), (''voice'', voice)],
      fs(audio_file \<mapsto> a))"
  using assms by (simp add: synthesis_script_def)

lemma load_result_of_success:
  assumes "fs audio_file = Some a"
  shows "load_result (JDict [(''success'', JBool True), (''sample_rate'', sr),
             (''audio_samples'', n), (''audio_file'', JStr audio_file),
             (''method_used'', mu), (''voice'', v)]) fs
     = (Inr (SynthesisOk a sr mu v), fs(audio_file := None))"
  using assms by (simp add: load_result_def np_load_def unlink_def)

text \<open>
  Claim C10. For any two requests that the engine can synthesize, whatever their text
  and voice (the method is not passed to the worker at all, and the result of
  \<open>run_synthesis_subprocess\<close> does not depend on it), both workers save their samples under
  the one path \<open>/tmp/synthesis_result.npy\<close> and name that path in their result line. The
  file is shared: when the second worker runs before the first parent has read, the
  file holds the samples of the second request, the first parent loads those, and its
  \<open>os.unlink\<close> removes the file.
\<close>

theorem artifact_path_shared:
  assumes "kokoro_create text1 voice1 = Inr (a1, sr1)"
    and "kokoro_create text2 voice2 = Inr (a2, sr2)"
  shows "audio_file = ''/tmp/synthesis_result.npy''
       \<and> subscript (fst (synthesis_script kokoro_create text1 voice1 fs)) ''audio_file'' = Inr (JStr audio_file)
       \<and> subscript (fst (synthesis_script kokoro_create text2 voice2 fs')) ''audio_file'' = Inr (JStr audio_file)
       \<and> snd (synthesis_script kokoro_create text1 voice1 fs) = fs(audio_file \<mapsto> a1)
       \<and> snd (synthesis_script kokoro_create text2 voice2 fs') = fs'(audio_file \<mapsto> a2)
       \<and> snd (synthesis_script kokoro_create text2 voice2
               (snd (synthesis_script kokoro_create text1 voice1 fs))) = fs(audio_file \<mapsto> a2)
       \<and> load_result (fst (synthesis_script kokoro_create text1 voice1 fs))
            (snd (synthesis_script kokoro_create text2 voice2
               (snd (synthesis_script kokoro_create text1 voice1 fs))))
          = (Inr (SynthesisOk a2 (JInt sr1) (JStr ''Real Kokoro TTS'') voice1), fs(audio_file := None))
       \<and> run_synthesis_subprocess h text1 voice1 method1 fs = run_synthesis_subprocess h text1 voice1 method2 fs"
proof -
  note s1 = synthesis_script_success [of kokoro_create text1 voice1 a1 sr1, OF assms(1)]
  note s2 = synthesis_script_success [of kokoro_create text2 voice2 a2 sr2, OF assms(2)]
  have l: "load_result (fst (synthesis_script kokoro_create text1 voice1 fs)) (fs(audio_file \<mapsto> a2))
          = (Inr (SynthesisOk a2 (JInt sr1) (JStr ''Real Kokoro TTS'') voice1), fs(audio_file := None))"
    by (simp add: s1 load_result_of_success)
  have m: "run_synthesis_subprocess h text1 voice1 method1 fs = run_synthesis_subprocess h text1 voice1 method2 fs"
    by (simp add: run_synthesis_subprocess_def)
  show ?thesis using l m by (simp add: s1 s2) (simp add: audio_file_def)
qed

theorem artifact_path_shared_witness:
  "sample_engine ''a'' (JStr ''af_heart'') = Inr ([1 / 2], 24000) \<and>
   sample_engine ''b'' (JStr ''am_adam'') = Inr ([1 / 4], 24000) \<and>
   snd (synthesis_script sample_engine ''b'' (JStr ''am_adam'')
          (snd (synthesis_script sample_engine ''a'' (JStr ''af_heart'') Map.empty)))
     = [audio_file \<mapsto> [1 / 4]] \<and>
   load_result
     (fst (synthesis_script sample_engine ''a'' (JStr ''af_heart'') Map.empty))
     (snd (synthesis_script sample_engine ''b'' (JStr ''am_adam'')
        (snd (synthesis_script sample_engine ''a'' (JStr ''af_heart'') Map.empty))))
     = (Inr (SynthesisOk [1 / 4] (JInt 24000) (JStr ''Real Kokoro TTS'') (JStr ''af_heart'')), Map.empty)"
proof -
  have e1: "sample_engine ''a'' (JStr ''af_heart'') = Inr ([1 / 2], 24000)"
    by (simp add: sample_engine_def)
  have e2: "sample_engine ''b'' (JStr ''am_adam'') = Inr ([1 / 4], 24000)"
    by (simp add: sample_engine_def)
  note r = artifact_path_shared [of sample_engine "''a''" "JStr ''af_heart''" "[1 / 2]" 24000
        "''b''" "JStr ''am_adam''" "[1 / 4]" 24000 Map.empty Map.empty silent_audio_host
        "JStr ''auto''" "JStr ''cpu''", OF e1 e2]
  have c1: "snd (synthesis_script sample_engine ''b'' (JStr ''am_adam'')
          (snd (synthesis_script sample_engine ''a'' (JStr ''af_heart'') Map.empty)))
     = [audio_file \<mapsto> [1 / 4]]"
    using r by blast
  have c2: "load_result
     (fst (synthesis_script sample_engine ''a'' (JStr ''af_heart'') Map.empty))
     (snd (synthesis_script sample_engine ''b'' (JStr ''am_adam'')
        (snd (synthesis_script sample_engine ''a'' (JStr ''af_heart'') Map.empty))))
     = (Inr (SynthesisOk [1 / 4] (JInt 24000) (JStr ''Real Kokoro TTS'') (JStr ''af_heart'')),
        Map.empty(audio_file := None))"
    using r by blast
  have c3: "Map.empty(audio_file := None) = (Map.empty :: files)"
    by simp
  show ?thesis
    using e1 e2 c1 c2 [unfolded c3] by blast
qed

section \<open>Tokens and voice style\<close>

lemma prepare_inputs_success:
  assumes "strip text \<noteq> []"
    and "voice_style_of self voice = Inr voice_style"
    and "phonemize self text lang = Inr phonemes"
    and "tokenize self phonemes = Inr toks"
    and "length toks < length voice_style"
  shows "prepare_inputs self text voice speed_v lang
     = Inr ([[0] @ toks @ [0]], voice_style ! length toks, speed_v)"
  using assms by (simp add: prepare_inputs_def style_at_def)

lemma prepare_inputs_out_of_range:
  assumes "strip text \<noteq> []"
    and "voice_style_of self voice = Inr voice_style"
    and "phonemize self text lang = Inr phonemes"
    and "tokenize self phonemes = Inr toks"
    and "length voice_style \<le> length toks"
  shows "prepare_inputs self text voice speed_v lang
     = Inl (IndexError ''index is out of bounds for axis 0'')"
  using assms by (simp add: prepare_inputs_def style_at_def)

lemma prepare_inputs_Inr:
  assumes "prepare_inputs self text voice speed_v lang = Inr (tokens_padded, st, sp)"
  shows "\<exists>voice_style phonemes toks.
           strip text \<noteq> [] \<and> voice_style_of self voice = Inr voice_style
         \<and> phonemize self text lang = Inr phonemes \<and> tokenize self phonemes = Inr toks
         \<and> length toks < length voice_style
         \<and> tokens_padded = [[0] @ toks @ [0]] \<and> st = voice_style ! length toks \<and> sp = speed_v"
  using assms
  by (auto simp: prepare_inputs_def style_at_def split: sum.splits if_splits)

lemma sample_hello_out_of_range:
  "prepare_inputs (sample_integration enabled) ''hello'' (VoiceName ''af_heart'') 1 ''en-us''
     = Inl (IndexError ''index is out of bounds for axis 0'')"
  by (simp add: prepare_inputs_def voice_style_of_def sample_integration_def style_at_def
      strip_def py_isspace_def)

text \<open>
  Claim C4 as stated fails: the text \<open>hello\<close> is not blank and the voice \<open>af_heart\<close> is
  valid, with a style table of three rows, but the text has five tokens, the style
  lookup that precedes the padding raises \<open>IndexError\<close>, and no padded sequence is
  produced.
\<close>

theorem padded_tokens_not_reached:
  "strip ''hello'' \<noteq> []
   \<and> voice_style_of (sample_integration True) (VoiceName ''af_heart'') = Inr [[1 / 10], [2 / 10], [3 / 10]]
   \<and> phonemize (sample_integration True) ''hello'' ''en-us'' = Inr ''hello''
   \<and> tokenize (sample_integration True) ''hello'' = Inr [104, 101, 108, 108, 111]
   \<and> prepare_inputs (sample_integration True) ''hello'' (VoiceName ''af_heart'') 1 ''en-us''
        = Inl (IndexError ''index is out of bounds for axis 0'')"
proof -
  have a: "strip ''hello'' \<noteq> []"
    by (simp add: strip_def py_isspace_def)
  have b: "voice_style_of (sample_integration True) (VoiceName ''af_heart'') = Inr [[1 / 10], [2 / 10], [3 / 10]]"
    by (simp add: voice_style_of_def sample_integration_def)
  have c: "phonemize (sample_integration True) ''hello'' ''en-us'' = Inr ''hello''"
    and d: "tokenize (sample_integration True) ''hello'' = Inr [104, 101, 108, 108, 111]"
    by (simp_all add: sample_integration_def)
  show ?thesis
    by (intro conjI a b c d sample_hello_out_of_range)
qed

text \<open>
  Claim C4 as amended. For a text that is not blank and a voice whose style table is
  found, when the phonemizer and the tokenizer of the engine return and the token count
  is below the number of rows of the style table, the pipeline produces the padded
  tokens: one sequence, the tokens between two boundary tokens 0, so its first and last
  elements are 0 and its length is the token count plus 2.
\<close>

theorem padded_tokens_boundary:
  assumes "strip text \<noteq> []"
    and "voice_style_of self voice = Inr voice_style"
    and "phonemize self text lang = Inr phonemes"
    and "tokenize self phonemes = Inr toks"
    and "length toks < length voice_style"
  shows "\<exists>padded st. prepare_inputs self text voice speed_v lang = Inr ([padded], st, speed_v)
           \<and> padded = 0 # toks @ [0]
           \<and> hd padded = 0 \<and> last padded = 0 \<and> length padded = length toks + 2"
  using prepare_inputs_success [OF assms] by simp

theorem padded_tokens_boundary_witness:
  "strip ''hi'' \<noteq> [] \<and>
   voice_style_of (sample_integration True) (VoiceName ''af_heart'') = Inr [[1 / 10], [2 / 10], [3 / 10]] \<and>
   phonemize (sample_integration True) ''hi'' ''en-us'' = Inr ''hi'' \<and>
   tokenize (sample_integration True) ''hi'' = Inr [104, 105] \<and>
   length [104, 105 :: int] < length [[1 / 10], [2 / 10], [3 / 10 :: real]] \<and>
   prepare_inputs (sample_integration True) ''hi'' (VoiceName ''af_heart'') 1 ''en-us''
     = Inr ([[0, 104, 105, 0]], [3 / 10], 1)"
proof -
  have a1: "strip ''hi'' \<noteq> []"
    by (simp add: strip_def py_isspace_def)
  have a2: "voice_style_of (sample_integration True) (VoiceName ''af_heart'') = Inr [[1 / 10], [2 / 10], [3 / 10]]"
    by (simp add: voice_style_of_def sample_integration_def)
  have a3: "phonemize (sample_integration True) ''hi'' ''en-us'' = Inr ''hi''"
    by (simp add: sample_integration_def)
  have a4: "tokenize (sample_integration True) ''hi'' = Inr [104, 105]"
    by (simp add: sample_integration_def)
  have a5: "length [104, 105 :: int] < length [[1 / 10], [2 / 10], [3 / 10 :: real]]"
    by simp
  from padded_tokens_boundary [OF a1 a2 a3 a4 a5, of 1]
  have "prepare_inputs (sample_integration True) ''hi'' (VoiceName ''af_heart'') 1 ''en-us''
     = Inr ([[0, 104, 105, 0]], [3 / 10], 1)"
    using prepare_inputs_success [OF a1 a2 a3 a4 a5, of 1] by simp
  with a1 a2 a3 a4 a5 show ?thesis by blast
qed


section \<open>Fallback to the standard engine\<close>







lemma create_audio_fallback:
  assumes "acceleration_enabled self"
    and "create_audio_npu_accelerated self t0 t1 text voice speed_v lang = (Inl e, evs)"
  shows "create_audio self t0 t1 text voice speed_v lang =
     (standard_create self text voice speed_v lang,
      Ran Accelerated # evs @ [Log ERROR ''MLIR-AIE NPU audio generation failed: '' (Some e), Ran CPU])"
  using assms by (simp add: create_audio_def)


lemma create_audio_npu_accelerated_out_of_range:
  assumes "prepare_inputs self text voice speed_v lang = Inl e"
  shows "create_audio_npu_accelerated self t0 t1 text voice speed_v lang = (Inl e, [])"
  using assms by (simp add: create_audio_npu_accelerated_def)


lemma sample_hello_create_audio:
  "create_audio (sample_integration True) 0 1 ''hello'' (VoiceName ''af_heart'') 1 ''en-us'' =
     (Inr ([1 / 2], 24000),
      [Ran Accelerated,
       Log ERROR ''MLIR-AIE NPU audio generation failed: ''
         (Some (IndexError ''index is out of bounds for axis 0'')),
       Ran CPU])"
proof -
  have e: "acceleration_enabled (sample_integration True)"
    by (simp add: sample_integration_def)
  have s: "standard_create (sample_integration True) ''hello'' (VoiceName ''af_heart'') 1 ''en-us''
      = Inr ([1 / 2], 24000)"
    by (simp add: sample_integration_def)
  show ?thesis
    using create_audio_fallback [OF e create_audio_npu_accelerated_out_of_range [OF sample_hello_out_of_range]]
    by (simp add: s)
qed



text \<open>
  Claim C5 as stated fails: for the voice \<open>af_heart\<close> with a style table of three rows and
  a text of five tokens, the style lookup raises \<open>IndexError\<close>, and \<open>create_audio\<close> does not
  answer with an error for the client: it returns the samples of the standard engine.
\<close>

theorem style_index_error_not_surfaced:
  "voice_style_of (sample_integration True) (VoiceName ''af_heart'') = Inr [[1 / 10], [2 / 10], [3 / 10]]
   \<and> tokenize (sample_integration True) ''hello'' = Inr [104, 101, 108, 108, 111]
   \<and> prepare_inputs (sample_integration True) ''hello'' (VoiceName ''af_heart'') 1 ''en-us''
        = Inl (IndexError ''index is out of bounds for axis 0'')
   \<and> fst (create_audio (sample_integration True) 0 1 ''hello'' (VoiceName ''af_heart'') 1 ''en-us'')
        = Inr ([1 / 2], 24000)"
  by (simp add: sample_hello_out_of_range sample_hello_create_audio)
    (simp add: voice_style_of_def sample_integration_def)

text \<open>
  Claim C5 as amended. The style table of the voice is indexed by the length of the
  unpadded token sequence. A token count below the number of rows gives that row; for
  any other token count the lookup raises \<open>IndexError\<close> and reads nothing, the accelerated
  pipeline stops before the session runs, and \<open>create_audio\<close> with the acceleration
  enabled logs the error and returns what the standard engine returns for the request.
\<close>

theorem style_index_out_of_range_falls_back:
  assumes "strip text \<noteq> []"
    and "voice_style_of self voice = Inr voice_style"
    and "phonemize self text lang = Inr phonemes"
    and "tokenize self phonemes = Inr toks"
  shows "(length toks < length voice_style \<longrightarrow>
            prepare_inputs self text voice speed_v lang
              = Inr ([[0] @ toks @ [0]], voice_style ! length toks, speed_v))
       \<and> (length voice_style \<le> length toks \<longrightarrow>
            prepare_inputs self text voice speed_v lang
              = Inl (IndexError ''index is out of bounds for axis 0'')
          \<and> create_audio_npu_accelerated self t0 t1 text voice speed_v lang
              = (Inl (IndexError ''index is out of bounds for axis 0''), [])
          \<and> (acceleration_enabled self \<longrightarrow>
                create_audio self t0 t1 text voice speed_v lang
                  = (standard_create self text voice speed_v lang,
                     [Ran Accelerated,
                      Log ERROR ''MLIR-AIE NPU audio generation failed: ''
                        (Some (IndexError ''index is out of bounds for axis 0'')),
                      Ran CPU])))"
proof (intro conjI impI)
  assume "length toks < length voice_style"
  then show "prepare_inputs self text voice speed_v lang
      = Inr ([[0] @ toks @ [0]], voice_style ! length toks, speed_v)"
    using assms by (rule prepare_inputs_success [rotated 4])
next
  assume r: "length voice_style \<le> length toks"
  show p: "prepare_inputs self text voice speed_v lang
      = Inl (IndexError ''index is out of bounds for axis 0'')"
    using assms r by (rule prepare_inputs_out_of_range)
  show n: "create_audio_npu_accelerated self t0 t1 text voice speed_v lang
      = (Inl (IndexError ''index is out of bounds for axis 0''), [])"
    using p by (rule create_audio_npu_accelerated_out_of_range)
  assume "acceleration_enabled self"
  then show "create_audio self t0 t1 text voice speed_v lang
      = (standard_create self text voice speed_v lang,
         [Ran Accelerated,
          Log ERROR ''MLIR-AIE NPU audio generation failed: ''
            (Some (IndexError ''index is out of bounds for axis 0'')),
          Ran CPU])"
    using create_audio_fallback [OF _ n] by simp
qed

theorem style_index_out_of_range_witness:
  "strip ''hello'' \<noteq> [] \<and> strip ''hi'' \<noteq> []
   \<and> voice_style_of (sample_integration True) (VoiceName ''af_heart'') = Inr [[1 / 10], [2 / 10], [3 / 10]]
   \<and> tokenize (sample_integration True) ''hello'' = Inr [104, 101, 108, 108, 111]
   \<and> tokenize (sample_integration True) ''hi'' = Inr [104, 105]
   \<and> acceleration_enabled (sample_integration True)
   \<and> prepare_inputs (sample_integration True) ''hi'' (VoiceName ''af_heart'') 1 ''en-us''
        = Inr ([[0, 104, 105, 0]], [3 / 10], 1)
   \<and> create_audio (sample_integration True) 0 1 ''hello'' (VoiceName ''af_heart'') 1 ''en-us''
        = (Inr ([1 / 2], 24000),
           [Ran Accelerated,
            Log ERROR ''MLIR-AIE NPU audio generation failed: ''
              (Some (IndexError ''index is out of bounds for axis 0'')),
            Ran CPU])"
proof -
  have a1: "strip ''hello'' \<noteq> []" and b1: "strip ''hi'' \<noteq> []"
    by (simp_all add: strip_def py_isspace_def)
  have a2: "voice_style_of (sample_integration True) (VoiceName ''af_heart'') = Inr [[1 / 10], [2 / 10], [3 / 10]]"
    by (simp add: voice_style_of_def sample_integration_def)
  have a3: "phonemize (sample_integration True) ''hello'' ''en-us'' = Inr ''hello''"
    and b3: "phonemize (sample_integration True) ''hi'' ''en-us'' = Inr ''hi''"
    by (simp_all add: sample_integration_def)
  have a4: "tokenize (sample_integration True) ''hello'' = Inr [104, 101, 108, 108, 111]"
    and b4: "tokenize (sample_integration True) ''hi'' = Inr [104, 105]"
    by (simp_all add: sample_integration_def)
  have en: "acceleration_enabled (sample_integration True)"
    and st: "standard_create (sample_integration True) ''hello'' (VoiceName ''af_heart'') 1 ''en-us''
      = Inr ([1 / 2], 24000)"
    by (simp_all add: sample_integration_def)
  have hi: "prepare_inputs (sample_integration True) ''hi'' (VoiceName ''af_heart'') 1 ''en-us''
        = Inr ([[0, 104, 105, 0]], [3 / 10], 1)"
    using style_index_out_of_range_falls_back [OF b1 a2 b3 b4, of 1 0 1] by simp
  have hello: "create_audio (sample_integration True) 0 1 ''hello'' (VoiceName ''af_heart'') 1 ''en-us''
        = (Inr ([1 / 2], 24000),
           [Ran Accelerated,
            Log ERROR ''MLIR-AIE NPU audio generation failed: ''
              (Some (IndexError ''index is out of bounds for axis 0'')),
            Ran CPU])"
    using style_index_out_of_range_falls_back [OF a1 a2 a3 a4, of 1 0 1] en st by simp
  show ?thesis using a1 b1 a2 a4 b4 en hi hello by blast
qed


text \<open>
  Claim C7. For every input and every exception on the accelerator side, the wrapped
  \<open>session.run\<close> logs a warning and returns what the unwrapped \<open>run\<close> returns on the same
  \<open>input_feed\<close>. And for every exception that leaves the accelerated pipeline,
  \<open>create_audio\<close> logs it (at level ERROR) and returns what the standard engine returns for
  the unchanged text, voice, speed and language: the request fails only if the standard
  engine fails.
\<close>

theorem acceleration_failure_falls_back:
  "(accelerator self feed = Inl e \<longrightarrow>
      mlir_npu_accelerated_run self feed
        = (original_run self feed,
           [Log WARNING ''NPU acceleration failed, using default execution: '' (Some e)])
    \<and> (acceleration_enabled self \<longrightarrow> fst (npu_session_run self feed) = original_run self feed))
   \<and> (acceleration_enabled self
        \<and> create_audio_npu_accelerated self t0 t1 text voice speed_v lang = (Inl e', evs) \<longrightarrow>
      create_audio self t0 t1 text voice speed_v lang
        = (standard_create self text voice speed_v lang,
           Ran Accelerated # evs
             @ [Log ERROR ''MLIR-AIE NPU audio generation failed: '' (Some e'), Ran CPU]))"
proof (intro conjI impI)
  assume a: "accelerator self feed = Inl e"
  then show r: "mlir_npu_accelerated_run self feed
        = (original_run self feed,
           [Log WARNING ''NPU acceleration failed, using default execution: '' (Some e)])"
    by (simp add: mlir_npu_accelerated_run_def accelerated_inference_def)
  assume "acceleration_enabled self"
  then show "fst (npu_session_run self feed) = original_run self feed"
    using r by (simp add: npu_session_run_def)
next
  assume "acceleration_enabled self
        \<and> create_audio_npu_accelerated self t0 t1 text voice speed_v lang = (Inl e', evs)"
  then show "create_audio self t0 t1 text voice speed_v lang
        = (standard_create self text voice speed_v lang,
           Ran Accelerated # evs
             @ [Log ERROR ''MLIR-AIE NPU audio generation failed: '' (Some e'), Ran CPU])"
    using create_audio_fallback by blast
qed

theorem acceleration_failure_witness:
  "accelerator (sample_integration True) \<lparr>tokens = Some [[0, 104, 105, 0]], style = [3 / 10], speed = 1\<rparr>
      = Inl (Exception (JStr ''device lost''))
   \<and> acceleration_enabled (sample_integration True)
   \<and> mlir_npu_accelerated_run (sample_integration True)
        \<lparr>tokens = Some [[0, 104, 105, 0]], style = [3 / 10], speed = 1\<rparr>
      = (Inr [Vector [1 / 4]],
         [Log WARNING ''NPU acceleration failed, using default execution: ''
            (Some (Exception (JStr ''device lost'')))])
   \<and> create_audio_npu_accelerated (sample_integration True) 0 1 ''hello'' (VoiceName ''af_heart'') 1 ''en-us''
      = (Inl (IndexError ''index is out of bounds for axis 0''), [])
   \<and> create_audio (sample_integration True) 0 1 ''hello'' (VoiceName ''af_heart'') 1 ''en-us''
      = (Inr ([1 / 2], 24000),
         [Ran Accelerated,
          Log ERROR ''MLIR-AIE NPU audio generation failed: ''
            (Some (IndexError ''index is out of bounds for axis 0'')),
          Ran CPU])"
proof -
  have a: "accelerator (sample_integration True) \<lparr>tokens = Some [[0, 104, 105, 0]], style = [3 / 10], speed = 1\<rparr>
      = Inl (Exception (JStr ''device lost''))"
    and en: "acceleration_enabled (sample_integration True)"
    and o: "original_run (sample_integration True) \<lparr>tokens = Some [[0, 104, 105, 0]], style = [3 / 10], speed = 1\<rparr>
      = Inr [Vector [1 / 4]]"
    and st: "standard_create (sample_integration True) ''hello'' (VoiceName ''af_heart'') 1 ''en-us''
      = Inr ([1 / 2], 24000)"
    by (simp_all add: sample_integration_def)
  have n: "create_audio_npu_accelerated (sample_integration True) 0 1 ''hello'' (VoiceName ''af_heart'') 1 ''en-us''
      = (Inl (IndexError ''index is out of bounds for axis 0''), [])"
    by (rule create_audio_npu_accelerated_out_of_range [OF sample_hello_out_of_range])
  note r = acceleration_failure_falls_back [of "sample_integration True"
      "\<lparr>tokens = Some [[0, 104, 105, 0]], style = [3 / 10], speed = 1\<rparr>"
      "Exception (JStr ''device lost'')" 0 1 "''hello''" "VoiceName ''af_heart''" 1 "''en-us''"
      "IndexError ''index is out of bounds for axis 0''" "[]"]
  have w: "mlir_npu_accelerated_run (sample_integration True)
        \<lparr>tokens = Some [[0, 104, 105, 0]], style = [3 / 10], speed = 1\<rparr>
      = (Inr [Vector [1 / 4]],
         [Log WARNING ''NPU acceleration failed, using default execution: ''
            (Some (Exception (JStr ''device lost'')))])"
    using r a by (simp add: o)
  have c: "create_audio (sample_integration True) 0 1 ''hello'' (VoiceName ''af_heart'') 1 ''en-us''
      = (Inr ([1 / 2], 24000),
         [Ran Accelerated,
          Log ERROR ''MLIR-AIE NPU audio generation failed: ''
            (Some (IndexError ''index is out of bounds for axis 0'')),
          Ran CPU])"
    using r en n by (simp add: st)
  show ?thesis using a en w n c by blast
qed

section \<open>Backend selection\<close>








end
